theory Spec2Isabelle
  imports Main
begin

section \<open>Strings as the playback engine uses them\<close>

text \<open>
  The helpers below are the Python string operations that \<open>shared.py\<close> applies to a
  macro's command: \<open>str.split\<close> with a one-character separator, \<open>str.join\<close>,
  \<open>str.startswith\<close>, \<open>str.replace\<close>, \<open>str.strip\<close> and \<open>str.isidentifier\<close>.
  A \<open>char\<close> stands for a code point below 256, so a \<open>string\<close> is a Python string over
  these code points; text with other code points cannot be written in the model.
\<close>

fun split_on :: "char \<Rightarrow> string \<Rightarrow> string list" where
  "split_on c [] = [[]]"
| "split_on c (x # xs) =
     (if x = c then [] # split_on c xs
      else (case split_on c xs of
              [] \<Rightarrow> [[x]]
            | p # ps \<Rightarrow> (x # p) # ps))"

fun join_with :: "string \<Rightarrow> string list \<Rightarrow> string" where
  "join_with s [] = []"
| "join_with s [p] = p"
| "join_with s (p # q # ps) = p @ s @ join_with s (q # ps)"

definition startswith :: "string \<Rightarrow> string \<Rightarrow> bool" where
  "startswith s p = (take (length p) s = p)"

function replace_str :: "string \<Rightarrow> string \<Rightarrow> string \<Rightarrow> string" where
  "replace_str old new [] = []"
| "replace_str old new (c # cs) =
     (if old \<noteq> [] \<and> startswith (c # cs) old
      then new @ replace_str old new (drop (length old) (c # cs))
      else c # replace_str old new cs)"
  by pat_completeness auto
termination
  by (relation "measure (\<lambda>(old, new, s). length s)") (auto simp: neq_Nil_conv)

text \<open>
  The white space that \<open>str.strip\<close> removes, among the code points below 256: the ASCII
  controls 9 to 13 and 28 to 31, the space, NEL (133) and the no-break space (160).
\<close>

definition is_space :: "char \<Rightarrow> bool" where
  "is_space c =
     (let n = (of_char c :: nat)
      in (9 \<le> n \<and> n \<le> 13) \<or> (28 \<le> n \<and> n \<le> 32) \<or> n = 133 \<or> n = 160)"

definition strip :: "string \<Rightarrow> string" where
  "strip s = rev (dropWhile is_space (rev (dropWhile is_space s)))"

text \<open>
  \<open>str.isidentifier\<close>: the first character is an underscore or has the Unicode property
  XID_Start, the others have XID_Continue. Below 256, XID_Start holds of the ASCII letters,
  of 170, 181 and 186, and of the letters 192 to 255 but 215 and 247; XID_Continue adds the
  digits, the underscore and the middle dot (183).
\<close>

definition is_ident_start :: "char \<Rightarrow> bool" where
  "is_ident_start c =
     (let n = (of_char c :: nat)
      in (65 \<le> n \<and> n \<le> 90) \<or> (97 \<le> n \<and> n \<le> 122) \<or> n = 95
         \<or> n = 170 \<or> n = 181 \<or> n = 186
         \<or> (192 \<le> n \<and> n \<le> 214) \<or> (216 \<le> n \<and> n \<le> 246) \<or> (248 \<le> n \<and> n \<le> 255))"

definition is_ident_char :: "char \<Rightarrow> bool" where
  "is_ident_char c =
     (let n = (of_char c :: nat)
      in is_ident_start c \<or> (48 \<le> n \<and> n \<le> 57) \<or> n = 183)"

definition isidentifier :: "string \<Rightarrow> bool" where
  "isidentifier s =
     (case s of [] \<Rightarrow> False | c # cs \<Rightarrow> is_ident_start c \<and> list_all is_ident_char cs)"

text \<open>A Python slice \<open>xs[:j]\<close>; a negative bound counts from the end.\<close>

definition py_upto :: "'a list \<Rightarrow> int \<Rightarrow> 'a list" where
  "py_upto xs j = (if j < 0 then take (nat (int (length xs) + j)) xs else take (nat j) xs)"

subsection \<open>\<open>extract_properties\<close>\<close>

text \<open>
  \<^verbatim>\<open>
  properties = properties.split(",")
  new_props = []
  prop_str = ''
  for prop in properties:
      prop = prop.split('=')
      if prop[0].strip().isidentifier() and len(prop) > 1:
          new_props.append(prop_str.strip())
          prop_str = ''
          prop_str += "=".join(prop)
      else:
          prop_str += ",%s" % prop[0]
  new_props.append(prop_str.strip())
  return new_props[1:]
  \<close>
\<close>

definition extract_step :: "string \<Rightarrow> string list \<times> string \<Rightarrow> string list \<times> string" where
  "extract_step prop st =
     (case st of (new_props, prop_str) \<Rightarrow>
        (case split_on CHR ''='' prop of
           [] \<Rightarrow> (new_props, prop_str)
         | p0 # ps \<Rightarrow>
             if isidentifier (strip p0) \<and> ps \<noteq> []
             then (new_props @ [strip prop_str], join_with ''='' (p0 # ps))
             else (new_props, prop_str @ '','' @ p0)))"

definition extract_properties :: "string \<Rightarrow> string list" where
  "extract_properties properties =
     (case fold extract_step (split_on CHR '','' properties) ([], []) of
        (new_props, prop_str) \<Rightarrow> tl (new_props @ [strip prop_str]))"

section \<open>Data model\<close>

subsection \<open>Decoded event payloads\<close>

text \<open>
  \<open>json.loads\<close> yields Python values. Numbers are modelled as integers; an object is an
  association list read with \<open>map_of\<close>.
\<close>

datatype json =
    JNull
  | JBool bool
  | JNum int
  | JStr string
  | JArr "json list"
  | JObj "(string \<times> json) list"

datatype exn =
    IndexError
  | KeyError string
  | TypeError
  | JSONDecodeError
  | NameError string
  | UnboundLocalError string
  | AttributeError string
  | ReferenceError
  | RuntimeError
  | ZeroDivisionError
  | HostError string

text \<open>\<open>play\<close> returns \<open>Union[Exception, str, None]\<close>; it may also raise.\<close>

datatype err = Exc exn | Msg string

datatype outcome =
    Returned "err option"
  | Raised exn

text \<open>
  How a loop over macros ends: it runs to its end (\<open>Completed\<close>), or a \<open>return\<close> or an
  exception inside it leaves the function.
\<close>

datatype flow = Completed | Exit outcome

text \<open>\<open>data[key]\<close>: a missing key raises KeyError, a non-dict raises TypeError.\<close>

definition jget :: "json \<Rightarrow> string \<Rightarrow> exn + json" where
  "jget data key =
     (case data of
        JObj kvs \<Rightarrow> (case map_of kvs key of None \<Rightarrow> Inl (KeyError key) | Some v \<Rightarrow> Inr v)
      | _ \<Rightarrow> Inl TypeError)"

text \<open>\<open>data.get(key, default)\<close> on a dict.\<close>

definition jget_default :: "json \<Rightarrow> string \<Rightarrow> json \<Rightarrow> json" where
  "jget_default data key dflt =
     (case data of
        JObj kvs \<Rightarrow> (case map_of kvs key of None \<Rightarrow> dflt | Some v \<Rightarrow> v)
      | _ \<Rightarrow> dflt)"

text \<open>Python truthiness of a decoded value.\<close>

fun truthy :: "json \<Rightarrow> bool" where
  "truthy JNull = False"
| "truthy (JBool b) = b"
| "truthy (JNum n) = (n \<noteq> 0)"
| "truthy (JStr s) = (s \<noteq> [])"
| "truthy (JArr xs) = (xs \<noteq> [])"
| "truthy (JObj kvs) = (kvs \<noteq> [])"

text \<open>Lists and dicts are unhashable: \<open>x in {'Render Complete'}\<close> raises TypeError on them.\<close>

fun hashable :: "json \<Rightarrow> bool" where
  "hashable (JArr xs) = False"
| "hashable (JObj kvs) = False"
| "hashable v = True"

subsection \<open>Macros, actions and the host application\<close>

record macro =
  macro_id :: string
  command :: string
  active :: bool
  operator_execution_context :: string
  ui_type :: string

record action =
  action_id :: string
  execution_mode :: string
  action_macros :: "macro list"

record region =
  region_name :: string
  region_type :: string

text \<open>
  Areas are shared mutable objects, so they are referred to by an identifier and their
  attributes live in the scene. A screen lists its areas under \<open>areas\<close>; the attribute
  \<open>area\<close> that line 600 of \<open>shared.py\<close> reads is kept apart (\<open>None\<close> when the screen
  object has no such attribute).
\<close>

record screen =
  screen_areas :: "nat list"
  screen_area :: "nat list option"

record window =
  window_name :: string
  window_screen :: screen

record override =
  o_window :: "window option"
  o_screen :: "screen option"
  o_area :: "nat option"
  o_region :: "region option"

record scene =
  data_objects :: "string list"
  view_layer_objects :: "string list"
  selected :: "string list"
  unselectable :: "string list"
  active_object :: "string option"
  ctx :: override
  windows :: "window list"
  area_ui_type :: "nat \<Rightarrow> string"
  area_regions :: "nat \<Rightarrow> region list"
  texts :: "string list"

text \<open>One call of Python's \<open>exec\<close> on a command, as the playback engine issued it.\<close>

record exec_call =
  call_command :: string
  call_override :: override
  call_object :: "string option"

record timer_entry =
  t_context :: "override option"
  t_macros :: "macro list"
  t_action :: action
  t_action_type :: string
  t_looping_count :: json
  t_macros_after_loop :: "macro list option"
  t_macros_before_timer :: "macro list option"
  t_first_interval :: json

record world =
  scene :: scene
  invoked :: "exec_call list"
  timers :: "timer_entry list"
  render_complete_macros :: "(string \<times> string \<times> string) list"
  action_alert :: "string set"
  macro_alert :: "string set"

text \<open>
  What the interpreter cannot see into is a parameter: the JSON decoder, the effect of
  \<open>exec\<close> on a command under an override (with the object it is run for, if any), the
  value of \<open>eval\<close> on a loop predicate, and the execution of a script text (which yields
  the formatted traceback when it fails).

  The limits of the model:
  \<^item> \<open>exec\<close>, \<open>eval\<close> and a script act on the scene only; a command that calls back into
    the add-on, and so reaches the timers, the queue or the alert flags, is not covered;
  \<^item> the field \<open>invoked\<close> of the world is a trace of the calls of \<open>exec\<close>, kept beside
    the scene so that no command can alter it;
  \<^item> \<open>logger.error\<close> and \<open>tag_redraw\<close> are left out;
  \<^item> the alert flag of a macro or an action is kept under its id.
\<close>

record host =
  loads :: "string \<Rightarrow> json option"
  exec_cmd :: "string \<Rightarrow> override \<Rightarrow> string option \<Rightarrow> scene \<Rightarrow> exn option \<times> scene"
  eval_py :: "string \<Rightarrow> scene \<Rightarrow> exn + bool"
  as_module :: "string \<Rightarrow> string \<Rightarrow> scene \<Rightarrow> string option \<times> scene"


section \<open>Selection and alerts\<close>

text \<open>
  \<open>object.select_set(v)\<close>, as the host application does it:
  \<^item> on an object that has been removed it raises ReferenceError;
  \<^item> on an object that is not in the active view layer, selecting raises RuntimeError
    and deselecting does nothing;
  \<^item> selecting an object that cannot be selected (it is hidden, or its \<open>hide_select\<close>
    is set: the scene lists these under \<open>unselectable\<close>) does nothing;
  \<^item> otherwise the selection flag of the object is set or cleared.
  \<open>context.selected_objects\<close> lists the selected objects of the view layer.
\<close>

definition select_set :: "string \<Rightarrow> bool \<Rightarrow> scene \<Rightarrow> exn + scene" where
  "select_set name v sc =
     (if name \<notin> set (data_objects sc) then Inl ReferenceError
      else if name \<notin> set (view_layer_objects sc)
      then (if v then Inl RuntimeError else Inr sc)
      else if v
      then (if name \<in> set (unselectable sc) \<or> name \<in> set (selected sc) then Inr sc
            else Inr (sc\<lparr>selected := selected sc @ [name]\<rparr>))
      else Inr (sc\<lparr>selected := removeAll name (selected sc)\<rparr>))"

definition context_selected_objects :: "scene \<Rightarrow> string list" where
  "context_selected_objects sc =
     filter (\<lambda>n. n \<in> set (data_objects sc) \<and> n \<in> set (view_layer_objects sc)) (selected sc)"

text \<open>\<open>for object in objs: object.select_set(False)\<close>\<close>

fun deselect_all :: "string list \<Rightarrow> scene \<Rightarrow> exn option \<times> scene" where
  "deselect_all [] sc = (None, sc)"
| "deselect_all (n # ns) sc =
     (case select_set n False sc of
        Inl e \<Rightarrow> (Some e, sc)
      | Inr sc' \<Rightarrow> deselect_all ns sc')"

text \<open>\<open>with suppress(ReferenceError): object.select_set(v)\<close>\<close>

definition select_set_suppressed :: "string \<Rightarrow> bool \<Rightarrow> scene \<Rightarrow> scene" where
  "select_set_suppressed name v sc =
     (case select_set name v sc of Inl e \<Rightarrow> sc | Inr sc' \<Rightarrow> sc')"

fun reselect_all :: "string list \<Rightarrow> scene \<Rightarrow> scene" where
  "reselect_all [] sc = sc"
| "reselect_all (n # ns) sc = reselect_all ns (select_set_suppressed n True sc)"

text \<open>\<open>action.alert = macro.alert = True\<close>\<close>

definition set_alert :: "action \<Rightarrow> macro \<Rightarrow> world \<Rightarrow> world" where
  "set_alert act m w =
     w\<lparr>action_alert := insert (action_id act) (action_alert w),
       macro_alert := insert (macro_id m) (macro_alert w)\<rparr>"

section \<open>Executing a plain command\<close>

subsection \<open>\<open>execute_individually\<close>\<close>

text \<open>
  \<^verbatim>\<open>
  old_selected_objects = context.selected_objects[:]
  for object in old_selected_objects:
      object.select_set(False)
  for object in old_selected_objects:
      object.select_set(True)
      ...
      context.view_layer.objects.active = object
      exec(command)
      with suppress(ReferenceError):
          object.select_set(False)
  for object in old_selected_objects:
      with suppress(ReferenceError):
          object.select_set(True)
  \<close>
  There is no \<open>try\<close>/\<open>finally\<close>: an exception inside the second loop leaves the
  function at once. The elided lines 415 to 417 are
  \<^verbatim>\<open>
      context.selectable_objects = [object]
      context.object = object
      context.active_object = object
  \<close>
  The members of \<open>bpy.context\<close> are read-only: an assignment to one of them raises
  AttributeError. \<open>context.view_layer.objects.active\<close> can be assigned.
\<close>

definition assign_context_member :: "string \<Rightarrow> exn option" where
  "assign_context_member name = Some (AttributeError name)"

text \<open>The first exception of a sequence of statements, in their order.\<close>

fun first_raised :: "exn option list \<Rightarrow> exn option" where
  "first_raised [] = None"
| "first_raised (None # rs) = first_raised rs"
| "first_raised (Some e # rs) = Some e"

fun individual_loop ::
  "host \<Rightarrow> string \<Rightarrow> override \<Rightarrow> string list \<Rightarrow> world \<Rightarrow> exn option \<times> world" where
  "individual_loop h cmd ov [] w = (None, w)"
| "individual_loop h cmd ov (n # ns) w =
     (case select_set n True (scene w) of
        Inl e \<Rightarrow> (Some e, w)
      | Inr sc1 \<Rightarrow>
          (case first_raised [assign_context_member ''selectable_objects'',
                              assign_context_member ''object'',
                              assign_context_member ''active_object''] of
             Some e \<Rightarrow> (Some e, w\<lparr>scene := sc1\<rparr>)
           | None \<Rightarrow>
               (case exec_cmd h cmd ov (Some n) (sc1\<lparr>active_object := Some n\<rparr>) of
                  (r, sc2) \<Rightarrow>
                    (let w1 = w\<lparr>invoked := invoked w @
                                   [\<lparr>call_command = cmd, call_override = ov,
                                     call_object = Some n\<rparr>]\<rparr>
                     in case r of
                          Some e \<Rightarrow> (Some e, w1\<lparr>scene := sc2\<rparr>)
                        | None \<Rightarrow>
                            individual_loop h cmd ov ns
                              (w1\<lparr>scene := select_set_suppressed n False sc2\<rparr>)))))"

definition execute_individually ::
  "host \<Rightarrow> string \<Rightarrow> override \<Rightarrow> world \<Rightarrow> exn option \<times> world" where
  "execute_individually h cmd ov w =
     (let old_selected_objects = context_selected_objects (scene w)
      in case deselect_all old_selected_objects (scene w) of
           (Some e, sc0) \<Rightarrow> (Some e, w\<lparr>scene := sc0\<rparr>)
         | (None, sc0) \<Rightarrow>
             (case individual_loop h cmd ov old_selected_objects (w\<lparr>scene := sc0\<rparr>) of
                (Some e, w1) \<Rightarrow> (Some e, w1)
              | (None, w1) \<Rightarrow>
                  (None, w1\<lparr>scene := reselect_all old_selected_objects (scene w1)\<rparr>)))"

definition exec_group ::
  "host \<Rightarrow> string \<Rightarrow> override \<Rightarrow> world \<Rightarrow> exn option \<times> world" where
  "exec_group h cmd ov w =
     (case exec_cmd h cmd ov None (scene w) of
        (r, sc') \<Rightarrow>
          (r, w\<lparr>invoked := invoked w @
                   [\<lparr>call_command = cmd, call_override = ov, call_object = None\<rparr>],
                 scene := sc'\<rparr>))"

subsection \<open>The recursion guard and the rewriting of the command\<close>

definition default_local_play :: "string set" where
  "default_local_play = {''id='' @ [CHR 0x22, CHR 0x22], ''index=-1''}"

definition recursion_msg :: string where
  "recursion_msg =
     ''Don'' @ [CHR 0x27] @ ''t run Local Play with default properties, this may cause recursion''"

text \<open>
  \<^verbatim>\<open>
  command.startswith("bpy.ops.ar.local_play")
    and set(extract_properties(command.split("(")[1][: -1])) == {"id=\"\"", "index=-1"}
  \<close>
  \<open>command.split("(")[1]\<close> raises IndexError when the command has no parenthesis.
\<close>

definition local_play_guard :: "string \<Rightarrow> exn + bool" where
  "local_play_guard cmd =
     (if startswith cmd ''bpy.ops.ar.local_play''
      then (case split_on CHR ''('' cmd of
              p0 # p1 # ps \<Rightarrow> Inr (set (extract_properties (butlast p1)) = default_local_play)
            | _ \<Rightarrow> Inl IndexError)
      else Inr False)"

definition inject_context :: "macro \<Rightarrow> string \<Rightarrow> string" where
  "inject_context m cmd =
     (if startswith cmd ''bpy.ops.''
      then (case split_on CHR ''('' cmd of
              [] \<Rightarrow> cmd
            | p0 # ps \<Rightarrow>
                p0 @ ''('' @ [CHR 0x22] @ operator_execution_context m @ [CHR 0x22] @ '', ''
                   @ join_with ''('' ps)
      else if startswith cmd ''bpy.context.''
      then replace_str ''bpy.context.'' ''context.'' cmd
      else cmd)"

subsection \<open>Choosing the execution surface\<close>

text \<open>
  \<^verbatim>\<open>
  for window in windows:
      if window.screen.areas[0].ui_type == macro.ui_type:
          temp_window = window
          temp_screen = temp_window.screen
          temp_area = temp_screen.area[0]
          break
  else:
      area_type = temp_area.ui_type
      temp_area.ui_type = macro.ui_type
  \<close>
\<close>

fun find_window :: "scene \<Rightarrow> string \<Rightarrow> window list \<Rightarrow> exn + window option" where
  "find_window sc t [] = Inr None"
| "find_window sc t (win # wins) =
     (case screen_areas (window_screen win) of
        [] \<Rightarrow> Inl IndexError
      | a0 # as \<Rightarrow>
          if area_ui_type sc a0 = t then Inr (Some win) else find_window sc t wins)"

definition resolve_surface ::
  "macro \<Rightarrow> scene \<Rightarrow> exn + (override \<times> string option \<times> scene)" where
  "resolve_surface m sc =
     (let c = ctx sc
      in case o_area c of
           None \<Rightarrow> Inr (c, None, sc)
         | Some a \<Rightarrow>
             if ui_type m \<noteq> [] \<and> area_ui_type sc a \<noteq> ui_type m
             then (case find_window sc (ui_type m) (rev (windows sc)) of
                     Inl e \<Rightarrow> Inl e
                   | Inr (Some win) \<Rightarrow>
                       (case screen_area (window_screen win) of
                          None \<Rightarrow> Inl (AttributeError ''area'')
                        | Some [] \<Rightarrow> Inl IndexError
                        | Some (a' # as) \<Rightarrow>
                            Inr (c\<lparr>o_window := Some win,
                                   o_screen := Some (window_screen win),
                                   o_area := Some a'\<rparr>, None, sc))
                   | Inr None \<Rightarrow>
                       Inr (c, Some (area_ui_type sc a),
                            sc\<lparr>area_ui_type := (area_ui_type sc)(a := ui_type m)\<rparr>))
             else Inr (c, None, sc))"

text \<open>
  \<^verbatim>\<open>
  for region in reversed(temp_area.regions):  # mostly "WINDOW" is at the end of the list
      if region.type != "WINDOW":
          continue
      temp_region = region
  \<close>
  \<open>scan_regions\<close> is this loop over the list it is given; \<open>pick_region\<close> gives it the
  reversed region list.
\<close>

fun scan_regions :: "region list \<Rightarrow> region option \<Rightarrow> region option" where
  "scan_regions [] temp_region = temp_region"
| "scan_regions (r # rs) temp_region =
     (if region_type r \<noteq> ''WINDOW'' then scan_regions rs temp_region
      else scan_regions rs (Some r))"

definition pick_region :: "scene \<Rightarrow> override \<Rightarrow> region option" where
  "pick_region sc ov =
     (case o_area ov of
        None \<Rightarrow> o_region ov
      | Some a \<Rightarrow> scan_regions (rev (area_regions sc a)) (o_region ov))"

subsection \<open>The \<open>try\<close> block of \<open>play\<close>\<close>

datatype step_result = Next "string option option" | Stop outcome

text \<open>
  The local variable \<open>area_type\<close> of \<open>play\<close> survives from one iteration of the main loop
  to the next: \<open>None\<close> below is "not yet bound", \<open>Some v\<close> its value. The handler reads it
  only when \<open>base_area\<close> is set.
  \<^verbatim>\<open>
  except Exception as err:
      logger.error("%s; command: %s" % (err, command))
      action.alert = macro.alert = True
      if base_area and area_type:
          base_area.ui_type = area_type
      return err
  \<close>
\<close>

definition on_exception ::
  "action \<Rightarrow> macro \<Rightarrow> nat option \<Rightarrow> string option option \<Rightarrow> exn \<Rightarrow> world
     \<Rightarrow> step_result \<times> world" where
  "on_exception act m base_area area_type e w =
     (let w1 = set_alert act m w
      in case base_area of
           None \<Rightarrow> (Stop (Returned (Some (Exc e))), w1)
         | Some b \<Rightarrow>
             (case area_type of
                None \<Rightarrow> (Stop (Raised (UnboundLocalError ''area_type'')), w1)
              | Some None \<Rightarrow> (Stop (Returned (Some (Exc e))), w1)
              | Some (Some t) \<Rightarrow>
                  if t \<noteq> []
                  then (Stop (Returned (Some (Exc e))),
                        w1\<lparr>scene := (scene w1)\<lparr>area_ui_type :=
                                       (area_ui_type (scene w1))(b := t)\<rparr>\<rparr>)
                  else (Stop (Returned (Some (Exc e))), w1)))"

text \<open>\<open>if temp_area and area_type: temp_area.ui_type = area_type\<close>\<close>

definition restore_ui_type :: "nat option \<Rightarrow> string option \<Rightarrow> scene \<Rightarrow> scene" where
  "restore_ui_type temp_area area_type sc =
     (case temp_area of
        None \<Rightarrow> sc
      | Some a \<Rightarrow>
          (case area_type of
             None \<Rightarrow> sc
           | Some t \<Rightarrow>
               if t \<noteq> [] then sc\<lparr>area_ui_type := (area_ui_type sc)(a := t)\<rparr> else sc))"

definition run_command ::
  "host \<Rightarrow> action \<Rightarrow> nat option \<Rightarrow> macro \<Rightarrow> string option option \<Rightarrow> world
     \<Rightarrow> step_result \<times> world" where
  "run_command h act base_area m at w =
     (case local_play_guard (command m) of
        Inl e \<Rightarrow> on_exception act m base_area at e w
      | Inr True \<Rightarrow> (Stop (Returned (Some (Msg recursion_msg))), set_alert act m w)
      | Inr False \<Rightarrow>
          (case resolve_surface m (scene w) of
             Inl e \<Rightarrow> on_exception act m base_area (Some None) e w
           | Inr (ov0, area_type, sc1) \<Rightarrow>
               (let ov = ov0\<lparr>o_region := pick_region sc1 ov0\<rparr>;
                    cmd = inject_context m (command m);
                    w1 = w\<lparr>scene := sc1\<rparr>
                in case (if execution_mode act = ''GROUP'' then exec_group h cmd ov w1
                         else execute_individually h cmd ov w1) of
                     (Some e, w2) \<Rightarrow> on_exception act m base_area (Some area_type) e w2
                   | (None, w2) \<Rightarrow>
                       (Next (Some area_type),
                        w2\<lparr>scene := restore_ui_type (o_area ov) area_type (scene w2)\<rparr>))))"


section \<open>Pseudo-events\<close>

text \<open>
  \<^verbatim>\<open>
  split = macro.command.split(":")
  if split[0] == 'ar.event':
      data = json.loads(":".join(split[1:]))
  \<close>
\<close>

definition is_event :: "macro \<Rightarrow> bool" where
  "is_event m =
     (case split_on CHR '':'' (command m) of [] \<Rightarrow> False | p # ps \<Rightarrow> p = ''ar.event'')"

definition payload :: "macro \<Rightarrow> string" where
  "payload m = join_with '':'' (tl (split_on CHR '':'' (command m)))"

definition decode :: "host \<Rightarrow> macro \<Rightarrow> exn + json" where
  "decode h m = (case loads h (payload m) of None \<Rightarrow> Inl JSONDecodeError | Some d \<Rightarrow> Inr d)"

subsection \<open>The pre-scan for \<open>Render Complete\<close>\<close>

text \<open>
  \<^verbatim>\<open>
  for i, macro in enumerate(macros):
      split = macro.command.split(":")
      if split[0] == 'ar.event':
          data = json.loads(":".join(split[1:]))
          if data['Type'] == 'Render Complete':
              shared_data.render_complete_macros.append((action_type, action.id, macros[i + 1].id))
              break
  \<close>
  The function walks the suffix \<open>macros[i:]\<close>, so \<open>macros[i + 1]\<close> is the head of the
  rest, and an empty rest is the index out of range.
\<close>

fun pre_scan ::
  "host \<Rightarrow> string \<Rightarrow> string \<Rightarrow> macro list \<Rightarrow> (string \<times> string \<times> string) list
     \<Rightarrow> exn + (string \<times> string \<times> string) list" where
  "pre_scan h atype aid [] q = Inr q"
| "pre_scan h atype aid (m # rest) q =
     (if is_event m
      then (case decode h m of
              Inl e \<Rightarrow> Inl e
            | Inr data \<Rightarrow>
                (case jget data ''Type'' of
                   Inl e \<Rightarrow> Inl e
                 | Inr ty \<Rightarrow>
                     if ty = JStr ''Render Complete''
                     then (case rest of
                             [] \<Rightarrow> Inl IndexError
                           | nxt # ms \<Rightarrow> Inr (q @ [(atype, aid, macro_id nxt)]))
                     else pre_scan h atype aid rest q))
      else pre_scan h atype aid rest q)"

subsection \<open>Timer\<close>

text \<open>
  The state of one call of \<open>play\<close> that its main loop reads: the arguments and
  \<open>base_area\<close>.
\<close>

record frame =
  fr_action :: action
  fr_action_type :: string
  fr_looping_count :: json
  fr_macros_after_loop :: "macro list option"
  fr_macros_before_timer :: "macro list option"
  fr_base_area :: "nat option"

text \<open>
  \<^verbatim>\<open>
  timer_macros = macros
  if macros_before_timer:
      timer_macros = macros_before_timer + macros[:(-1-i)]
  bpy.app.timers.register(
      functools.partial(run_queued_macros, context.copy(), macros[i + 1:], action,
                        action_type, looping_count, macros_after_loop, timer_macros),
      first_interval=data['Time'])
  return
  \<close>
  Here and below \<open>pre\<close> is \<open>macros[:i]\<close>, \<open>m\<close> is \<open>macros[i]\<close> and \<open>rest\<close> is
  \<open>macros[i + 1:]\<close>.
\<close>

definition timer_macros_of :: "macro list option \<Rightarrow> macro list \<Rightarrow> nat \<Rightarrow> macro list" where
  "timer_macros_of macros_before_timer macros i =
     (case macros_before_timer of
        None \<Rightarrow> macros
      | Some b \<Rightarrow> if b \<noteq> [] then b @ py_upto macros (- 1 - int i) else macros)"

definition timer_event ::
  "frame \<Rightarrow> macro list \<Rightarrow> macro \<Rightarrow> macro list \<Rightarrow> json \<Rightarrow> world \<Rightarrow> step_result \<times> world" where
  "timer_event fr pre m rest data w =
     (let macros = pre @ m # rest;
          timer_macros = timer_macros_of (fr_macros_before_timer fr) macros (length pre)
      in case jget data ''Time'' of
           Inl e \<Rightarrow> (Stop (Raised e), w)
         | Inr t \<Rightarrow>
             (Stop (Returned None),
              w\<lparr>timers := timers w @
                   [\<lparr>t_context = Some (ctx (scene w)),
                     t_macros = rest,
                     t_action = fr_action fr,
                     t_action_type = fr_action_type fr,
                     t_looping_count = fr_looping_count fr,
                     t_macros_after_loop = fr_macros_after_loop fr,
                     t_macros_before_timer = Some timer_macros,
                     t_first_interval = t\<rparr>]\<rparr>))"

subsection \<open>Loop\<close>

text \<open>
  \<^verbatim>\<open>
  end_index = i + 1
  loop_count = 1
  for j, process_macro in enumerate(macros[i + 1:], i + 1):
      if process_macro.active:
          split = process_macro.command.split(":")
          if split[0] == 'ar.event':
              process_data = json.loads(":".join(split[1:]))
              if process_data['Type'] == 'Loop':
                  loop_count += 1
              elif process_data['Type'] == 'EndLoop':
                  loop_count -= 1
      if loop_count == 0:
          end_index = j
          break
  if loop_count != 0:
      continue
  \<close>
  \<open>find_end\<close> counts \<open>j\<close> from the start of \<open>macros[i + 1:]\<close>; \<open>Inr None\<close> is the loop
  running out with \<open>loop_count \<noteq> 0\<close>.
\<close>

fun find_end :: "host \<Rightarrow> macro list \<Rightarrow> nat \<Rightarrow> int \<Rightarrow> exn + nat option" where
  "find_end h [] j loop_count = Inr None"
| "find_end h (pm # ps) j loop_count =
     (case (if active pm \<and> is_event pm
            then (case decode h pm of
                    Inl e \<Rightarrow> Inl e
                  | Inr process_data \<Rightarrow>
                      (case jget process_data ''Type'' of
                         Inl e \<Rightarrow> Inl e
                       | Inr ty \<Rightarrow>
                           Inr (if ty = JStr ''Loop'' then loop_count + 1
                                else if ty = JStr ''EndLoop'' then loop_count - 1
                                else loop_count)))
            else Inr loop_count) of
        Inl e \<Rightarrow> Inl e
      | Inr lc \<Rightarrow> if lc = 0 then Inr (Some j) else find_end h ps (Suc j) lc)"

text \<open>
  The arguments of \<open>play\<close> after \<open>context\<close>. \<open>looping_count\<close> is whatever value the
  caller passes: the default \<open>- 1\<close>, or the \<open>RepeatCount\<close> of a payload as decoded.
\<close>

type_synonym play_fn =
  "macro list \<Rightarrow> action \<Rightarrow> string \<Rightarrow> json \<Rightarrow> macro list option \<Rightarrow> macro list option
     \<Rightarrow> world \<Rightarrow> (outcome \<times> world) option"

text \<open>
  \<^verbatim>\<open>
  while eval(data["PyStatement"]):
      play(context, loop_macros, action, action_type)
  \<close>
  The value that \<open>play\<close> returns is dropped; an exception leaves the loop. The loop may run
  forever, so it takes fuel: \<open>None\<close> is "no result within \<open>k\<close> iterations".
\<close>

fun py_while ::
  "nat \<Rightarrow> (scene \<Rightarrow> exn + bool) \<Rightarrow> (world \<Rightarrow> (outcome \<times> world) option) \<Rightarrow> world
     \<Rightarrow> (exn option \<times> world) option" where
  "py_while k cond body w =
     (case cond (scene w) of
        Inl e \<Rightarrow> Some (Some e, w)
      | Inr b \<Rightarrow>
          if \<not> b then Some (None, w)
          else (case k of
                  0 \<Rightarrow> None
                | Suc k' \<Rightarrow>
                    (case body w of
                       None \<Rightarrow> None
                     | Some (Raised e, w') \<Rightarrow> Some (Some e, w')
                     | Some (r, w') \<Rightarrow> py_while k' cond body w')))"

text \<open>The length of \<open>numpy.arange(start, stop, step)\<close> on integers.\<close>

definition arange_len :: "int \<Rightarrow> int \<Rightarrow> int \<Rightarrow> exn + nat" where
  "arange_len start stop step =
     (if step = 0 then Inl ZeroDivisionError
      else if step > 0 then Inr (nat ((stop - start + step - 1) div step))
      else Inr (nat ((start - stop - step - 1) div (- step))))"

definition err_truthy :: "err \<Rightarrow> bool" where
  "err_truthy e = (case e of Exc x \<Rightarrow> True | Msg s \<Rightarrow> s \<noteq> [])"

text \<open>
  \<^verbatim>\<open>
  for k in numpy.arange(...):
      err = play(context, loop_macros, action, action_type)
      if err:
          return err
  \<close>
\<close>

fun count_loop ::
  "nat \<Rightarrow> (world \<Rightarrow> (outcome \<times> world) option) \<Rightarrow> world \<Rightarrow> (flow \<times> world) option" where
  "count_loop 0 body w = Some (Completed, w)"
| "count_loop (Suc n) body w =
     (case body w of
        None \<Rightarrow> None
      | Some (Raised e, w') \<Rightarrow> Some (Exit (Raised e), w')
      | Some (Returned (Some e), w') \<Rightarrow>
          if err_truthy e then Some (Exit (Returned (Some e)), w') else count_loop n body w'
      | Some (Returned None, w') \<Rightarrow> count_loop n body w')"

definition jnum :: "exn + json \<Rightarrow> exn + int" where
  "jnum v = (case v of Inl e \<Rightarrow> Inl e | Inr (JNum n) \<Rightarrow> Inr n | Inr other \<Rightarrow> Inl TypeError)"

definition count_range :: "json \<Rightarrow> exn + nat" where
  "count_range data =
     (case jnum (jget data ''Startnumber'') of
        Inl e \<Rightarrow> Inl e
      | Inr a \<Rightarrow>
          (case jnum (jget data ''Endnumber'') of
             Inl e \<Rightarrow> Inl e
           | Inr b \<Rightarrow>
               (case jnum (jget data ''Stepnumber'') of
                  Inl e \<Rightarrow> Inl e
                | Inr c \<Rightarrow> arange_len a b c)))"

text \<open>
  The three forms of a matched loop. After the \<open>python\<close> and the \<open>count\<close> form the source
  has no \<open>continue\<close>: control leaves the \<open>if\<close> chain and enters the \<open>try\<close> block with
  \<open>macro\<close> still the Loop macro. The counted form returns what the nested \<open>play\<close>
  returns; it passes the \<open>RepeatCount\<close> on as it is.
\<close>

definition loop_body ::
  "host \<Rightarrow> play_fn \<Rightarrow> nat \<Rightarrow> frame \<Rightarrow> macro \<Rightarrow> string option option \<Rightarrow> macro list
     \<Rightarrow> macro list \<Rightarrow> json \<Rightarrow> world \<Rightarrow> (step_result \<times> world) option" where
  "loop_body h rec k fr m at loop_macros macros_after data w =
     (case jget data ''StatementType'' of
        Inl e \<Rightarrow> Some (Stop (Raised e), w)
      | Inr st \<Rightarrow>
          if st = JStr ''python''
          then (case jget data ''PyStatement'' of
                  Inl e \<Rightarrow> Some (Stop (Returned (Some (Exc e))), set_alert (fr_action fr) m w)
                | Inr (JStr stmt) \<Rightarrow>
                    (case py_while k (eval_py h stmt)
                            (rec loop_macros (fr_action fr) (fr_action_type fr) (JNum (- 1)) None None)
                            w of
                       None \<Rightarrow> None
                     | Some (Some e, w') \<Rightarrow>
                         Some (Stop (Returned (Some (Exc e))), set_alert (fr_action fr) m w')
                     | Some (None, w') \<Rightarrow>
                         Some (run_command h (fr_action fr) (fr_base_area fr) m at w'))
                | Inr other \<Rightarrow>
                    Some (Stop (Returned (Some (Exc TypeError))), set_alert (fr_action fr) m w))
          else if st = JStr ''count''
          then (case count_range data of
                  Inl e \<Rightarrow> Some (Stop (Raised e), w)
                | Inr n \<Rightarrow>
                    (case count_loop n
                            (rec loop_macros (fr_action fr) (fr_action_type fr) (JNum (- 1)) None None)
                            w of
                       None \<Rightarrow> None
                     | Some (Completed, w') \<Rightarrow>
                         Some (run_command h (fr_action fr) (fr_base_area fr) m at w')
                     | Some (Exit r, w') \<Rightarrow> Some (Stop r, w')))
          else (case jget data ''RepeatCount'' of
                  Inl e \<Rightarrow> Some (Stop (Raised e), w)
                | Inr n \<Rightarrow>
                    (case rec loop_macros (fr_action fr) (fr_action_type fr) n
                            (Some macros_after) (fr_macros_before_timer fr) w of
                       None \<Rightarrow> None
                     | Some (r, w') \<Rightarrow> Some (Stop r, w'))))"

definition loop_event ::
  "host \<Rightarrow> play_fn \<Rightarrow> nat \<Rightarrow> frame \<Rightarrow> macro \<Rightarrow> string option option \<Rightarrow> macro list
     \<Rightarrow> json \<Rightarrow> world \<Rightarrow> (step_result \<times> world) option" where
  "loop_event h rec k fr m at rest data w =
     (case find_end h rest 0 1 of
        Inl e \<Rightarrow> Some (Stop (Raised e), w)
      | Inr None \<Rightarrow> Some (Next at, w)
      | Inr (Some j) \<Rightarrow>
          loop_body h rec k fr m at (take j rest) (drop (Suc j) rest) data w)"

subsection \<open>Select Object\<close>

text \<open>What a \<open>for\<close> loop iterates over, for each kind of decoded value.\<close>

definition iterable :: "json \<Rightarrow> exn + json list" where
  "iterable v =
     (case v of
        JArr xs \<Rightarrow> Inr xs
      | JStr s \<Rightarrow> Inr (map (\<lambda>c. JStr [c]) s)
      | JObj kvs \<Rightarrow> Inr (map (\<lambda>kv. JStr (fst kv)) kvs)
      | _ \<Rightarrow> Inl TypeError)"

text \<open>
  \<^verbatim>\<open>
  for object_name in data.get('Objects', []):
      if object := bpy.data.objects.get(object_name):
          object.select_set(True)
          selected_objects.append(object)
  \<close>
\<close>

fun select_named :: "json list \<Rightarrow> scene \<Rightarrow> exn option \<times> scene" where
  "select_named [] sc = (None, sc)"
| "select_named (x # xs) sc =
     (case x of
        JStr name \<Rightarrow>
          if name \<in> set (data_objects sc)
          then (case select_set name True sc of
                  Inl e \<Rightarrow> (Some e, sc)
                | Inr sc' \<Rightarrow> select_named xs sc')
          else select_named xs sc
      | _ \<Rightarrow> (Some TypeError, sc))"

definition missing_object_msg :: "string \<Rightarrow> string" where
  "missing_object_msg name =
     name @ '' Object doesn'' @ [CHR 0x27] @ ''t exist in the active view layer''"

definition select_object_event ::
  "action \<Rightarrow> macro \<Rightarrow> string option option \<Rightarrow> json \<Rightarrow> world \<Rightarrow> step_result \<times> world" where
  "select_object_event act m at data w =
     (let sc = scene w;
          selected_objects = context_selected_objects sc
      in case (if \<not> truthy (jget_default data ''KeepSelection'' (JBool False))
               then deselect_all selected_objects sc else (None, sc)) of
           (Some e, sc1) \<Rightarrow> (Stop (Raised e), w\<lparr>scene := sc1\<rparr>)
         | (None, sc1) \<Rightarrow>
             (case iterable (jget_default data ''Objects'' (JArr [])) of
                Inl e \<Rightarrow> (Stop (Raised e), w\<lparr>scene := sc1\<rparr>)
              | Inr names \<Rightarrow>
                  (case select_named names sc1 of
                     (Some e, sc2) \<Rightarrow> (Stop (Raised e), w\<lparr>scene := sc2\<rparr>)
                   | (None, sc2) \<Rightarrow>
                       (case jget_default data ''Object'' (JStr []) of
                          JStr name \<Rightarrow>
                            if name = [] then (Next at, w\<lparr>scene := sc2\<rparr>)
                            else if \<not> (name \<in> set (data_objects sc2)
                                       \<and> name \<in> set (view_layer_objects sc2))
                            then (Stop (Returned (Some (Msg (missing_object_msg name)))),
                                  set_alert act m (w\<lparr>scene := sc2\<rparr>))
                            else (case select_set name True
                                         (sc2\<lparr>active_object := Some name\<rparr>) of
                                    Inl e \<Rightarrow> (Stop (Raised e), w\<lparr>scene := sc2\<rparr>)
                                  | Inr sc3 \<Rightarrow> (Next at, w\<lparr>scene := sc3\<rparr>))
                        | other \<Rightarrow> (Stop (Raised TypeError), w\<lparr>scene := sc2\<rparr>)))))"

subsection \<open>Run Script\<close>

text \<open>
  The text block is created under the macro's id, executed, and removed when the script
  ran; when the script fails, the formatted traceback is returned and the text stays.
\<close>

definition run_script_event ::
  "host \<Rightarrow> action \<Rightarrow> macro \<Rightarrow> string option option \<Rightarrow> json \<Rightarrow> world
     \<Rightarrow> step_result \<times> world" where
  "run_script_event h act m at data w =
     (let sc1 = (scene w)\<lparr>texts := texts (scene w) @ [macro_id m]\<rparr>
      in case jget data ''ScriptText'' of
           Inl e \<Rightarrow> (Stop (Raised e), w\<lparr>scene := sc1\<rparr>)
         | Inr (JStr script) \<Rightarrow>
             (case as_module h (macro_id m) script sc1 of
                (Some error, sc2) \<Rightarrow>
                  (Stop (Returned (Some (Msg error))), set_alert act m (w\<lparr>scene := sc2\<rparr>))
              | (None, sc2) \<Rightarrow>
                  (Next at, w\<lparr>scene := sc2\<lparr>texts := remove1 (macro_id m) (texts sc2)\<rparr>\<rparr>))
         | Inr other \<Rightarrow> (Stop (Raised TypeError), w\<lparr>scene := sc1\<rparr>))"

section \<open>The interpreter\<close>

subsection \<open>One iteration of the main loop\<close>

definition step ::
  "host \<Rightarrow> play_fn \<Rightarrow> nat \<Rightarrow> frame \<Rightarrow> string option option \<Rightarrow> macro list \<Rightarrow> macro
     \<Rightarrow> macro list \<Rightarrow> world \<Rightarrow> (step_result \<times> world) option" where
  "step h rec k fr at pre m rest w =
     (if is_event m
      then (case decode h m of
              Inl e \<Rightarrow> Some (Stop (Raised e), w)
            | Inr data \<Rightarrow>
                (case jget data ''Type'' of
                   Inl e \<Rightarrow> Some (Stop (Raised e), w)
                 | Inr ty \<Rightarrow>
                     if \<not> hashable ty then Some (Stop (Raised TypeError), w)
                     else if ty = JStr ''Render Complete'' then Some (Stop (Returned None), w)
                     else if ty = JStr ''Timer'' then Some (timer_event fr pre m rest data w)
                     else if ty = JStr ''Loop'' then loop_event h rec k fr m at rest data w
                     else if ty = JStr ''Select Object''
                     then Some (select_object_event (fr_action fr) m at data w)
                     else if ty = JStr ''Run Script''
                     then Some (run_script_event h (fr_action fr) m at data w)
                     else if ty = JStr ''EndLoop'' then Some (Next at, w)
                     else Some (run_command h (fr_action fr) (fr_base_area fr) m at w)))
      else Some (run_command h (fr_action fr) (fr_base_area fr) m at w))"

subsection \<open>The main loop\<close>

text \<open>
  \<open>for i, macro in enumerate(macros)\<close>, on the split \<open>macros = pre @ todo\<close>. \<open>Completed\<close>
  is the loop running to its end, \<open>Exit\<close> a \<open>return\<close> or an exception inside it.
\<close>

fun scan ::
  "host \<Rightarrow> play_fn \<Rightarrow> nat \<Rightarrow> frame \<Rightarrow> string option option \<Rightarrow> macro list \<Rightarrow> macro list
     \<Rightarrow> world \<Rightarrow> (flow \<times> world) option" where
  "scan h rec k fr at pre [] w = Some (Completed, w)"
| "scan h rec k fr at pre (m # rest) w =
     (case step h rec k fr at pre m rest w of
        None \<Rightarrow> None
      | Some (Stop r, w') \<Rightarrow> Some (Exit r, w')
      | Some (Next at', w') \<Rightarrow> scan h rec k fr at' (pre @ [m]) rest w')"

subsection \<open>\<open>play\<close>\<close>

text \<open>
  One call of \<open>play\<close>, with the calls it makes to itself going through \<open>rec\<close>.
  \<^verbatim>\<open>
  looping_count = looping_count - 1
  if looping_count > 0:
      loop_macros = macros_before_timer
      if loop_macros == None:
          loop_macros = macros
      return play(context, loop_macros, action, action_type, looping_count, macros_after_loop)
  elif looping_count == 0:
      return play(context, macros_after_loop, action, action_type)
  \<close>
  \<open>play\<close> on \<open>None\<close> for \<open>macros\<close> fails in its first line with a TypeError.
  \<open>decrement\<close> is \<open>looping_count - 1\<close>: a bool counts as an integer, and a value that is
  no number raises TypeError.
\<close>

definition decrement :: "json \<Rightarrow> exn + int" where
  "decrement c =
     (case c of
        JNum n \<Rightarrow> Inr (n - 1)
      | JBool b \<Rightarrow> Inr ((if b then 1 else 0) - 1)
      | _ \<Rightarrow> Inl TypeError)"

definition play_pass ::
  "host \<Rightarrow> play_fn \<Rightarrow> nat \<Rightarrow> play_fn" where
  "play_pass h rec k all_macros act atype looping_count macros_after_loop macros_before_timer w =
     (let macros = filter active all_macros
      in case pre_scan h atype (action_id act) macros (render_complete_macros w) of
           Inl e \<Rightarrow> Some (Raised e, w)
         | Inr q \<Rightarrow>
             (let w1 = w\<lparr>render_complete_macros := q\<rparr>;
                  fr = \<lparr>fr_action = act, fr_action_type = atype,
                        fr_looping_count = looping_count,
                        fr_macros_after_loop = macros_after_loop,
                        fr_macros_before_timer = macros_before_timer,
                        fr_base_area = o_area (ctx (scene w1))\<rparr>
              in case scan h rec k fr None [] macros w1 of
                   None \<Rightarrow> None
                 | Some (Completed, w2) \<Rightarrow>
                     (case decrement looping_count of
                        Inl e \<Rightarrow> Some (Raised e, w2)
                      | Inr c \<Rightarrow>
                          if c > 0
                          then rec (case macros_before_timer of None \<Rightarrow> macros | Some b \<Rightarrow> b)
                                   act atype (JNum c) macros_after_loop None w2
                          else if c = 0
                          then (case macros_after_loop of
                                  None \<Rightarrow> Some (Raised TypeError, w2)
                                | Some after \<Rightarrow> rec after act atype (JNum (- 1)) None None w2)
                          else Some (Returned None, w2))
                 | Some (Exit r, w2) \<Rightarrow> Some (r, w2)))"

text \<open>
  \<open>play\<close> with fuel: \<open>n\<close> bounds the depth of the calls of \<open>play\<close> to itself and the
  iterations of each \<open>while\<close> loop. \<open>None\<close> is "no result within the fuel".
\<close>

fun play :: "host \<Rightarrow> nat \<Rightarrow> play_fn" where
  "play h 0 macros act atype looping_count macros_after_loop macros_before_timer w = None"
| "play h (Suc n) macros act atype looping_count macros_after_loop macros_before_timer w =
     play_pass h (play h n) n macros act atype looping_count macros_after_loop
       macros_before_timer w"

text \<open>
  \<open>run_queued_macros\<close>, the continuation that a timer fires: \<open>play\<close> under the saved
  context, which \<open>temp_override\<close> puts back afterwards. What \<open>play\<close> returns is dropped:
  the function returns \<open>None\<close>, or lets the exception of \<open>play\<close> through.
\<close>

definition run_queued_macros ::
  "host \<Rightarrow> nat \<Rightarrow> timer_entry \<Rightarrow> world \<Rightarrow> (outcome \<times> world) option" where
  "run_queued_macros h n t w =
     (let saved = ctx (scene w);
          w0 = (case t_context t of
                  None \<Rightarrow> w
                | Some c \<Rightarrow> w\<lparr>scene := (scene w)\<lparr>ctx := c\<rparr>\<rparr>)
      in case play h n (t_macros t) (t_action t) (t_action_type t) (t_looping_count t)
                (t_macros_after_loop t) (t_macros_before_timer t) w0 of
           None \<Rightarrow> None
         | Some (Raised e, w') \<Rightarrow> Some (Raised e, w'\<lparr>scene := (scene w')\<lparr>ctx := saved\<rparr>\<rparr>)
         | Some (Returned r, w') \<Rightarrow>
             Some (Returned None, w'\<lparr>scene := (scene w')\<lparr>ctx := saved\<rparr>\<rparr>))"

section \<open>The render-complete queue\<close>

text \<open>
  \<^verbatim>\<open>
  while len(shared_data.render_complete_macros):
      action_type, action_id, start_id = shared_data.render_complete_macros.pop(0)
      action = getattr(ActRec_pref, action_type)[action_id]
      if (start_index := action.macros.find(start_id)) < 0:
          continue
      bpy.app.timers.register(
          functools.partial(run_queued_macros, None, action.macros[start:], action, action_type),
          first_interval=0.1)
  \<close>
  The preferences map a collection name to its actions. The name \<open>start\<close> is bound
  nowhere in the function or the module (the index is \<open>start_index\<close>), so evaluating the
  arguments of the registration raises NameError before anything is registered.
\<close>

fun find_index :: "string \<Rightarrow> macro list \<Rightarrow> nat option" where
  "find_index key [] = None"
| "find_index key (m # ms) =
     (if macro_id m = key then Some 0 else map_option Suc (find_index key ms))"

fun lookup_action :: "string \<Rightarrow> action list \<Rightarrow> action option" where
  "lookup_action key [] = None"
| "lookup_action key (a # as) = (if action_id a = key then Some a else lookup_action key as)"

fun drain ::
  "(string \<Rightarrow> action list option) \<Rightarrow> (string \<times> string \<times> string) list \<Rightarrow> world
     \<Rightarrow> outcome \<times> world" where
  "drain prefs [] w = (Returned None, w\<lparr>render_complete_macros := []\<rparr>)"
| "drain prefs ((action_type, aid, start_id) # q) w =
     (let w1 = w\<lparr>render_complete_macros := q\<rparr>
      in case prefs action_type of
           None \<Rightarrow> (Raised (AttributeError action_type), w1)
         | Some actions \<Rightarrow>
             (case lookup_action aid actions of
                None \<Rightarrow> (Raised (KeyError aid), w1)
              | Some act \<Rightarrow>
                  (case find_index start_id (action_macros act) of
                     None \<Rightarrow> drain prefs q w1
                   | Some start_index \<Rightarrow> (Raised (NameError ''start''), w1))))"

definition execute_render_complete ::
  "(string \<Rightarrow> action list option) \<Rightarrow> world \<Rightarrow> outcome \<times> world" where
  "execute_render_complete prefs w = drain prefs (render_complete_macros w) w"


section \<open>A concrete host\<close>

text \<open>
  A small host on which the interpreter can be run: the decoder is a table from payload
  texts to values, \<open>exec\<close> raises on the commands listed as failing and leaves the scene
  alone otherwise, \<open>eval\<close> knows the two literals \<open>True\<close> and \<open>False\<close>, and scripts run
  without error. Its scene holds four objects: Cube and Lamp, selected; Locked, which
  cannot be selected; and Orphan, which is in \<open>bpy.data.objects\<close> but not in the view
  layer.
\<close>

definition demo_exec ::
  "(string \<times> exn) list \<Rightarrow> string \<Rightarrow> override \<Rightarrow> string option \<Rightarrow> scene
     \<Rightarrow> exn option \<times> scene" where
  "demo_exec failing cmd ov obj sc = (map_of failing cmd, sc)"

definition demo_eval :: "string \<Rightarrow> scene \<Rightarrow> exn + bool" where
  "demo_eval stmt sc =
     (if stmt = ''True'' then Inr True
      else if stmt = ''False'' then Inr False
      else Inl (NameError stmt))"

definition demo_host :: "(string \<times> json) list \<Rightarrow> (string \<times> exn) list \<Rightarrow> host" where
  "demo_host table failing =
     \<lparr>loads = map_of table,
      exec_cmd = demo_exec failing,
      eval_py = demo_eval,
      as_module = (\<lambda>name script sc. (None, sc))\<rparr>"

definition demo_regions :: "region list" where
  "demo_regions =
     [\<lparr>region_name = ''quad_a'', region_type = ''WINDOW''\<rparr>,
      \<lparr>region_name = ''header'', region_type = ''HEADER''\<rparr>,
      \<lparr>region_name = ''quad_b'', region_type = ''WINDOW''\<rparr>]"

definition demo_scene :: scene where
  "demo_scene =
     \<lparr>data_objects = [''Cube'', ''Lamp'', ''Locked'', ''Orphan''],
      view_layer_objects = [''Cube'', ''Lamp'', ''Locked''],
      selected = [''Cube'', ''Lamp''],
      unselectable = [''Locked''],
      active_object = Some ''Cube'',
      ctx = \<lparr>o_window = None, o_screen = None, o_area = Some 0, o_region = None\<rparr>,
      windows = [],
      area_ui_type = (\<lambda>a. ''VIEW_3D''),
      area_regions = (\<lambda>a. demo_regions),
      texts = []\<rparr>"

definition demo_world :: world where
  "demo_world =
     \<lparr>scene = demo_scene, invoked = [], timers = [], render_complete_macros = [],
      action_alert = {}, macro_alert = {}\<rparr>"

definition demo_action :: "string \<Rightarrow> action" where
  "demo_action mode = \<lparr>action_id = ''act'', execution_mode = mode, action_macros = []\<rparr>"

definition mk_macro :: "string \<Rightarrow> string \<Rightarrow> macro" where
  "mk_macro i c =
     \<lparr>macro_id = i, command = c, active = True,
      operator_execution_context = ''EXEC_DEFAULT'', ui_type = []\<rparr>"

text \<open>The texts of the event payloads used below, and what they decode to.\<close>

definition dq :: "string \<Rightarrow> string" where
  "dq s = CHR 0x22 # s @ [CHR 0x22]"

definition field :: "string \<Rightarrow> string \<Rightarrow> string" where
  "field k v = dq k @ '': '' @ v"

definition render_complete_text :: string where
  "render_complete_text = ''{'' @ field ''Type'' (dq ''Render Complete'') @ ''}''"

definition timer_text :: string where
  "timer_text = ''{'' @ field ''Type'' (dq ''Timer'') @ '', '' @ field ''Time'' ''1'' @ ''}''"

definition end_loop_text :: string where
  "end_loop_text = ''{'' @ field ''Type'' (dq ''EndLoop'') @ ''}''"

definition repeat_loop_text :: string where
  "repeat_loop_text =
     ''{'' @ field ''Type'' (dq ''Loop'') @ '', '' @ field ''StatementType'' (dq ''repeat'')
        @ '', '' @ field ''RepeatCount'' ''3'' @ ''}''"

definition python_loop_text :: string where
  "python_loop_text =
     ''{'' @ field ''Type'' (dq ''Loop'') @ '', '' @ field ''StatementType'' (dq ''python'')
        @ '', '' @ field ''PyStatement'' (dq ''False'') @ ''}''"

definition select_text :: string where
  "select_text =
     ''{'' @ field ''Type'' (dq ''Select Object'') @ '', ''
        @ field ''Objects'' (''['' @ dq ''Lamp'' @ '', '' @ dq ''Gone'' @ '']'') @ '', ''
        @ field ''Object'' (dq ''Ghost'') @ ''}''"

definition select_locked_text :: string where
  "select_locked_text =
     ''{'' @ field ''Type'' (dq ''Select Object'') @ '', ''
        @ field ''Objects'' (''['' @ dq ''Lamp'' @ '', '' @ dq ''Locked'' @ '']'') @ '', ''
        @ field ''Object'' (dq ''Ghost'') @ ''}''"

definition select_orphan_text :: string where
  "select_orphan_text =
     ''{'' @ field ''Type'' (dq ''Select Object'') @ '', ''
        @ field ''Objects'' (''['' @ dq ''Orphan'' @ '', '' @ dq ''Lamp'' @ '']'') @ '', ''
        @ field ''Object'' (dq ''Ghost'') @ ''}''"

definition demo_table :: "(string \<times> json) list" where
  "demo_table =
     [(render_complete_text, JObj [(''Type'', JStr ''Render Complete'')]),
      (timer_text, JObj [(''Type'', JStr ''Timer''), (''Time'', JNum 1)]),
      (end_loop_text, JObj [(''Type'', JStr ''EndLoop'')]),
      (repeat_loop_text,
       JObj [(''Type'', JStr ''Loop''), (''StatementType'', JStr ''repeat''),
             (''RepeatCount'', JNum 3)]),
      (python_loop_text,
       JObj [(''Type'', JStr ''Loop''), (''StatementType'', JStr ''python''),
             (''PyStatement'', JStr ''False'')]),
      (select_text,
       JObj [(''Type'', JStr ''Select Object''),
             (''Objects'', JArr [JStr ''Lamp'', JStr ''Gone'']),
             (''Object'', JStr ''Ghost'')]),
      (select_locked_text,
       JObj [(''Type'', JStr ''Select Object''),
             (''Objects'', JArr [JStr ''Lamp'', JStr ''Locked'']),
             (''Object'', JStr ''Ghost'')]),
      (select_orphan_text,
       JObj [(''Type'', JStr ''Select Object''),
             (''Objects'', JArr [JStr ''Orphan'', JStr ''Lamp'']),
             (''Object'', JStr ''Ghost'')])]"

definition event :: "string \<Rightarrow> string \<Rightarrow> macro" where
  "event i text = mk_macro i (''ar.event:'' @ text)"


definition demo_prefs :: "string \<Rightarrow> action list option" where
  "demo_prefs name =
     (if name = ''global_actions''
      then Some [\<lparr>action_id = ''act'', execution_mode = ''GROUP'',
                  action_macros = [mk_macro ''a'' ''cmd_a'', mk_macro ''b'' ''cmd_b'']\<rparr>]
      else if name = ''local_actions'' then Some []
      else None)"

section \<open>Notions used to state the properties\<close>

text \<open>
  The kind of a macro as the interpreter reads it: \<open>Inr None\<close> for a plain command,
  \<open>Inr (Some ty)\<close> for a pseudo-event whose payload decodes and has the \<open>Type\<close> \<open>ty\<close>,
  \<open>Inl e\<close> when reading it raises \<open>e\<close>.
\<close>

definition event_type :: "host \<Rightarrow> macro \<Rightarrow> exn + json option" where
  "event_type h m =
     (if is_event m
      then (case decode h m of
              Inl e \<Rightarrow> Inl e
            | Inr data \<Rightarrow>
                (case jget data ''Type'' of Inl e \<Rightarrow> Inl e | Inr ty \<Rightarrow> Inr (Some ty)))
      else Inr None)"

text \<open>A macro that the pre-scan reads without raising and that is no \<open>Render Complete\<close>.\<close>

definition passed_by_pre_scan :: "host \<Rightarrow> macro \<Rightarrow> bool" where
  "passed_by_pre_scan h m =
     (case event_type h m of
        Inl e \<Rightarrow> False
      | Inr ty \<Rightarrow> ty \<noteq> Some (JStr ''Render Complete''))"

text \<open>
  A Loop event has no matching EndLoop among the macros after it when, in every initial
  part of these macros, the EndLoop events do not outnumber the Loop events. As the
  loop-detection scan does, the count takes the active macros that are pseudo-events, by
  the \<open>Type\<close> of their payload. \<open>readable\<close> is a macro whose kind is read without an
  exception.
\<close>

definition readable :: "host \<Rightarrow> macro \<Rightarrow> bool" where
  "readable h m = (case event_type h m of Inl e \<Rightarrow> False | Inr ty \<Rightarrow> True)"

definition count_events :: "host \<Rightarrow> string \<Rightarrow> macro list \<Rightarrow> nat" where
  "count_events h ty ms =
     length (filter (\<lambda>m. active m \<and> event_type h m = Inr (Some (JStr ty))) ms)"

definition no_matching_end_loop :: "host \<Rightarrow> macro list \<Rightarrow> bool" where
  "no_matching_end_loop h rest =
     list_all (\<lambda>k. count_events h ''EndLoop'' (take k rest)
                    \<le> count_events h ''Loop'' (take k rest))
              [0 ..< Suc (length rest)]"



text \<open>
  Running a loop body directly, \<open>n\<close> times in a plain loop: each time the main loop of
  \<open>play\<close> goes over the active macros of the body, under the default arguments, and has
  to reach the end of the body by itself (\<open>no_play\<close>: without a nested call of \<open>play\<close>).
\<close>

definition no_play :: play_fn where
  "no_play macros act atype looping_count macros_after_loop macros_before_timer w = None"

definition default_frame :: "action \<Rightarrow> string \<Rightarrow> world \<Rightarrow> frame" where
  "default_frame act atype w =
     \<lparr>fr_action = act, fr_action_type = atype, fr_looping_count = JNum (- 1),
      fr_macros_after_loop = None, fr_macros_before_timer = None,
      fr_base_area = o_area (ctx (scene w))\<rparr>"

fun direct_loop ::
  "host \<Rightarrow> action \<Rightarrow> string \<Rightarrow> nat \<Rightarrow> macro list \<Rightarrow> world \<Rightarrow> world option" where
  "direct_loop h act atype 0 body w = Some w"
| "direct_loop h act atype (Suc n) body w =
     (case scan h no_play 0 (default_frame act atype w) None [] (filter active body) w of
        Some (Completed, w') \<Rightarrow> direct_loop h act atype n body w'
      | _ \<Rightarrow> None)"

section \<open>The target region of a command\<close>

lemma scan_regions_snoc:
  "scan_regions (rs @ [r]) tr =
     (if region_type r = ''WINDOW'' then Some r else scan_regions rs tr)"
  by (induction rs arbitrary: tr) auto

text \<open>
  The loop over the reversed region list has no \<open>break\<close>, so the region that is left in
  \<open>temp_region\<close> is the WINDOW region met last in the reversed list: the first one of the
  list.
\<close>

lemma scan_regions_rev:
  "scan_regions (rev rs) tr =
     (case filter (\<lambda>r. region_type r = ''WINDOW'') rs of [] \<Rightarrow> tr | r # rest \<Rightarrow> Some r)"
  by (induction rs) (auto simp: scan_regions_snoc)

text \<open>
  C9. The claim: the region a plain command runs in is the last WINDOW region of the
  surface's region list. On an area whose regions are \<open>quad_a\<close> (WINDOW), \<open>header\<close>
  (HEADER), \<open>quad_b\<close> (WINDOW), in this order, \<open>play\<close> runs the command in \<open>quad_a\<close>,
  while the last WINDOW region of the list is \<open>quad_b\<close>.
\<close>

theorem play_region_is_first_window:
  "map_option (\<lambda>rw. map (\<lambda>c. o_region (call_override c)) (invoked (snd rw)))
     (play (demo_host demo_table []) 1 [mk_macro ''a'' ''cmd_a''] (demo_action ''GROUP'')
        ''global_actions'' (JNum (- 1)) None None demo_world)
   = Some [Some \<lparr>region_name = ''quad_a'', region_type = ''WINDOW''\<rparr>]
   \<and> last (filter (\<lambda>r. region_type r = ''WINDOW'') (area_regions demo_scene 0))
       = \<lparr>region_name = ''quad_b'', region_type = ''WINDOW''\<rparr>"
  by code_simp

section \<open>Timers\<close>

lemma timer_macros_of_resumed:
  assumes "b \<noteq> []" and "i < length macros"
  shows "timer_macros_of (Some b) macros i = b @ take (length macros - Suc i) macros"
proof -
  have "nat (int (length macros) + (- 1 - int i)) = length macros - Suc i"
    using assms(2) by arith
  moreover have "int (length macros) + (- 1 - int i) \<ge> 0 \<or> take (length macros - Suc i) macros = take 0 macros"
    using assms(2) by arith
  ultimately show ?thesis
    using assms by (auto simp: timer_macros_of_def py_upto_def)
qed

text \<open>
  C3. The claim: a Timer reached at index \<open>i\<close> of a resumed pass registers a continuation
  whose \<open>macros_before_timer\<close> is the old one followed by \<open>macros[:i]\<close>. With the Timer at
  index 0 of a two-macro pass resumed with \<open>macros_before_timer = [x]\<close>, the continuation
  registered by \<open>play\<close> carries \<open>[x, Timer]\<close> (the old list followed by \<open>macros[:-1]\<close>),
  not \<open>[x]\<close>; the remaining slice, the immediate return without error and the absence of any
  invocation are as claimed.
\<close>

theorem play_timer_resumed_slice:
  "map_option
     (\<lambda>rw. (fst rw,
            map (\<lambda>t. (t_macros t, t_macros_before_timer t)) (timers (snd rw)),
            invoked (snd rw)))
     (play (demo_host demo_table []) 1 [event ''t'' timer_text, mk_macro ''b'' ''cmd_b'']
        (demo_action ''GROUP'') ''global_actions'' (JNum (- 1)) None (Some [mk_macro ''x'' ''cmd_x''])
        demo_world)
   = Some (Returned None,
           [([mk_macro ''b'' ''cmd_b''],
             Some [mk_macro ''x'' ''cmd_x'', event ''t'' timer_text])],
           [])"
  by code_simp

text \<open>
  The same on a pass that \<open>play\<close> itself resumes: on \<open>[Timer, Timer, b]\<close> the first
  Timer registers a continuation with \<open>macros_before_timer = [t1, t2, b]\<close>; when it
  fires, the second Timer is at index 0 of \<open>[t2, b]\<close>, and the continuation it registers
  carries \<open>[t1, t2, b, t2]\<close>, where the macros already executed give \<open>[t1, t2, b]\<close>.
\<close>

lemma play_two_timers_resumed_slice:
  "map_option (\<lambda>rw. map (\<lambda>t. map_option (map macro_id) (t_macros_before_timer t))
                         (timers (snd rw)))
     (case play (demo_host demo_table []) 1
             [event ''t1'' timer_text, event ''t2'' timer_text, mk_macro ''b'' ''cmd_b'']
             (demo_action ''GROUP'') ''global_actions'' (JNum (- 1)) None None demo_world of
        None \<Rightarrow> None
      | Some (r, w1) \<Rightarrow>
          (case timers w1 of
             [] \<Rightarrow> None
           | t # ts \<Rightarrow> run_queued_macros (demo_host demo_table []) 1 t (w1\<lparr>timers := ts\<rparr>)))
   = Some [Some [''t1'', ''t2'', ''b'', ''t2'']]"
  by code_simp

section \<open>Loops with a Python predicate\<close>

text \<open>
  C4. The claim: a \<open>python\<close> loop whose predicate is false at once runs its body zero
  times and goes on after the EndLoop, with no error and without invoking the Loop macro's
  own command. On \<open>[Loop, a, EndLoop, b]\<close> with the predicate \<open>False\<close>, \<open>play\<close> hands
  the command string of the Loop macro to \<open>exec\<close>; on a host where that raises (as
  Python does on the unbound name \<open>ar\<close>) \<open>play\<close> returns the error, flags the action and
  the Loop macro, and \<open>b\<close> is never invoked.
\<close>

theorem play_python_loop_false_invokes_loop_command:
  "map_option
     (\<lambda>rw. (fst rw, map call_command (invoked (snd rw)),
            macro_alert (snd rw), action_alert (snd rw)))
     (play (demo_host demo_table [(''ar.event:'' @ python_loop_text, NameError ''ar'')]) 1
        [event ''l'' python_loop_text, mk_macro ''a'' ''cmd_a'',
         event ''e'' end_loop_text, mk_macro ''b'' ''cmd_b'']
        (demo_action ''GROUP'') ''global_actions'' (JNum (- 1)) None None demo_world)
   = Some (Returned (Some (Exc (NameError ''ar''))),
           [''ar.event:'' @ python_loop_text], {''l''}, {''act''})"
  by code_simp

text \<open>
  On a host where \<open>exec\<close> accepts the Loop macro's command, the main loop goes on with the
  macro after the Loop macro, so the body runs once.
\<close>

lemma play_python_loop_false_runs_body:
  "map_option (\<lambda>rw. (fst rw, map call_command (invoked (snd rw))))
     (play (demo_host demo_table []) 1
        [event ''l'' python_loop_text, mk_macro ''a'' ''cmd_a'',
         event ''e'' end_loop_text, mk_macro ''b'' ''cmd_b'']
        (demo_action ''GROUP'') ''global_actions'' (JNum (- 1)) None None demo_world)
   = Some (Returned None, [''ar.event:'' @ python_loop_text, ''cmd_a'', ''cmd_b''])"
  by code_simp

section \<open>Draining the render-complete queue\<close>

text \<open>
  C8. The claim: for a queue entry whose action and resume macro both exist, the drain
  schedules a continuation that resumes from that macro. On the queue
  \<open>[(global_actions, act, b)]\<close>, with the action \<open>act\<close> holding the macros \<open>a\<close> and \<open>b\<close>,
  \<open>execute_render_complete\<close> raises NameError, registers no timer and leaves the entry
  popped.
\<close>

theorem execute_render_complete_raises:
  "(case execute_render_complete demo_prefs
           (demo_world\<lparr>render_complete_macros := [(''global_actions'', ''act'', ''b'')]\<rparr>) of
      (r, w') \<Rightarrow> (r, timers w', render_complete_macros w'))
   = (Raised (NameError ''start''), [], [])"
  by code_simp

text \<open>
  For every state of the queue: an entry that resolves to an action and a macro raises
  NameError; an entry whose action is missing raises the KeyError of the lookup; an entry
  whose resume macro is gone is skipped, and the drain goes on with the next entry, in the
  order of the queue.
\<close>

lemma drain_resolved_entry_raises:
  "prefs action_type = Some actions \<Longrightarrow> lookup_action aid actions = Some act \<Longrightarrow>
   find_index start_id (action_macros act) = Some start_index \<Longrightarrow>
   drain prefs ((action_type, aid, start_id) # q) w
     = (Raised (NameError ''start''), w\<lparr>render_complete_macros := q\<rparr>)"
  by simp

lemma drain_missing_action_raises:
  "prefs action_type = Some actions \<Longrightarrow> lookup_action aid actions = None \<Longrightarrow>
   drain prefs ((action_type, aid, start_id) # q) w
     = (Raised (KeyError aid), w\<lparr>render_complete_macros := q\<rparr>)"
  by simp

lemma drain_skips_missing_macro:
  "prefs action_type = Some actions \<Longrightarrow> lookup_action aid actions = Some act \<Longrightarrow>
   find_index start_id (action_macros act) = None \<Longrightarrow>
   drain prefs ((action_type, aid, start_id) # q) w
     = drain prefs q (w\<lparr>render_complete_macros := q\<rparr>)"
  by simp

section \<open>The pre-scan\<close>

lemma pre_scan_passed:
  "list_all (passed_by_pre_scan h) ms \<Longrightarrow> pre_scan h atype aid ms q = Inr q"
  by (induction ms)
     (auto simp: passed_by_pre_scan_def event_type_def split: sum.splits if_splits)

lemma pre_scan_render_complete_last:
  assumes "list_all (passed_by_pre_scan h) front"
    and "event_type h rc = Inr (Some (JStr ''Render Complete''))"
  shows "pre_scan h atype aid (front @ [rc]) q = Inl IndexError"
  using assms
  by (induction front)
     (auto simp: passed_by_pre_scan_def event_type_def split: sum.splits if_splits)

text \<open>
  C10, as stated, fails: with two \<open>Render Complete\<close> events the last active macro is a
  \<open>Render Complete\<close>, but the pre-scan stops at the first one, whose successor exists;
  \<open>play\<close> registers it and returns without an error.
\<close>

theorem play_two_render_complete_no_error:
  "map_option (\<lambda>rw. (fst rw, render_complete_macros (snd rw)))
     (play (demo_host demo_table []) 1
        [event ''r1'' render_complete_text, event ''r2'' render_complete_text]
        (demo_action ''GROUP'') ''global_actions'' (JNum (- 1)) None None demo_world)
   = Some (Returned None, [(''global_actions'', ''act'', ''r2'')])"
  by code_simp

text \<open>
  C10, amended: when the first \<open>Render Complete\<close> event of the active macros is their last
  macro, and the pre-scan reads the macros before it without raising, \<open>play\<close> raises
  IndexError in the pre-scan, for every fuel \<open>Suc n\<close> and whatever the other arguments:
  no macro has been executed and the world is unchanged.
\<close>

theorem play_render_complete_last:
  assumes "filter active macros = front @ [rc]"
    and "list_all (passed_by_pre_scan h) front"
    and "event_type h rc = Inr (Some (JStr ''Render Complete''))"
  shows "play h (Suc n) macros act atype looping_count macros_after_loop macros_before_timer w
           = Some (Raised IndexError, w)"
  using pre_scan_render_complete_last[OF assms(2,3)] assms(1)
  by (simp add: play_pass_def)

theorem play_render_complete_last_witness:
  "filter active [mk_macro ''a'' ''cmd_a'', event ''r'' render_complete_text]
     = [mk_macro ''a'' ''cmd_a''] @ [event ''r'' render_complete_text]
   \<and> list_all (passed_by_pre_scan (demo_host demo_table [])) [mk_macro ''a'' ''cmd_a'']
   \<and> event_type (demo_host demo_table []) (event ''r'' render_complete_text)
       = Inr (Some (JStr ''Render Complete''))
   \<and> play (demo_host demo_table []) (Suc 0)
       [mk_macro ''a'' ''cmd_a'', event ''r'' render_complete_text]
       (demo_action ''GROUP'') ''global_actions'' (JNum (- 1)) None None demo_world
       = Some (Raised IndexError, demo_world)"
proof -
  have h1: "filter active [mk_macro ''a'' ''cmd_a'', event ''r'' render_complete_text]
              = [mk_macro ''a'' ''cmd_a''] @ [event ''r'' render_complete_text]"
    by code_simp
  have h2: "list_all (passed_by_pre_scan (demo_host demo_table [])) [mk_macro ''a'' ''cmd_a'']"
    by code_simp
  have h3: "event_type (demo_host demo_table []) (event ''r'' render_complete_text)
              = Inr (Some (JStr ''Render Complete''))"
    by code_simp
  from h1 h2 h3 play_render_complete_last[OF h1 h2 h3] show ?thesis
    by blast
qed


section \<open>Reading the kind of a macro\<close>

lemma event_typeD:
  assumes "event_type h m = Inr (Some ty)"
  shows "is_event m \<and> (\<exists>data. decode h m = Inr data \<and> jget data ''Type'' = Inr ty)"
proof (cases "is_event m")
  case False
  with assms show ?thesis by (simp add: event_type_def)
next
  case True
  show ?thesis
  proof (cases "decode h m")
    case (Inl e)
    with True assms show ?thesis by (simp add: event_type_def)
  next
    case (Inr data)
    show ?thesis
    proof (cases "jget data ''Type''")
      case (Inl e)
      with True Inr assms show ?thesis by (simp add: event_type_def)
    next
      case (Inr ty')
      with True \<open>decode h m = Inr data\<close> assms show ?thesis by (simp add: event_type_def)
    qed
  qed
qed

section \<open>Unmatched loops\<close>

lemma step_unmatched_loop:
  assumes "event_type h m = Inr (Some (JStr ''Loop''))" and "find_end h rest 0 1 = Inr None"
  shows "step h rec k fr at pre m rest w = Some (Next at, w)"
proof -
  from event_typeD[OF assms(1)] obtain data where
    d: "is_event m" "decode h m = Inr data" "jget data ''Type'' = Inr (JStr ''Loop'')" by blast
  show ?thesis using d assms(2) by (simp add: step_def loop_event_def)
qed

lemma find_end_Cons:
  "find_end h (pm # ps) j lc =
     (case (if active pm then event_type h pm else Inr None) of
        Inl e \<Rightarrow> Inl e
      | Inr ty \<Rightarrow>
          (let lc' = (if ty = Some (JStr ''Loop'') then lc + 1
                      else if ty = Some (JStr ''EndLoop'') then lc - 1 else lc)
           in if lc' = 0 then Inr (Some j) else find_end h ps (Suc j) lc'))"
proof (cases "active pm \<and> is_event pm")
  case False
  then show ?thesis by (auto simp: event_type_def)
next
  case True
  show ?thesis
  proof (cases "decode h pm")
    case (Inl e)
    with True show ?thesis by (simp add: event_type_def)
  next
    case (Inr data)
    show ?thesis
    proof (cases "jget data ''Type''")
      case (Inl e)
      with True Inr show ?thesis by (simp add: event_type_def)
    next
      case ty: (Inr ty)
      with True Inr show ?thesis by (simp add: event_type_def Let_def)
    qed
  qed
qed

lemma count_events_Cons:
  "count_events h ty (pm # ps)
     = (if active pm \<and> event_type h pm = Inr (Some (JStr ty)) then 1 else 0)
       + count_events h ty ps"
  by (simp add: count_events_def)

text \<open>
  While the EndLoop events of no initial part make up for the open loops, the
  loop-detection scan reads all the macros and runs out of them.
\<close>

lemma find_end_runs_out:
  assumes "list_all (\<lambda>pm. active pm \<longrightarrow> readable h pm) rest"
    and "\<forall>k \<le> length rest.
           int (count_events h ''EndLoop'' (take k rest))
             < lc + int (count_events h ''Loop'' (take k rest))"
  shows "find_end h rest j lc = Inr None"
  using assms
proof (induction rest arbitrary: j lc)
  case Nil
  then show ?case by simp
next
  case (Cons pm ps)
  define ty where "ty = (if active pm then event_type h pm else Inr None)"
  have "\<exists>t. ty = Inr t"
  proof (cases "active pm")
    case False
    then show ?thesis by (simp add: ty_def)
  next
    case True
    with Cons.prems(1) have "readable h pm" by simp
    then show ?thesis using True by (cases "event_type h pm") (simp_all add: ty_def readable_def)
  qed
  then obtain t where t: "ty = Inr t" by blast
  define lc' where "lc' = (if t = Some (JStr ''Loop'') then lc + 1
                           else if t = Some (JStr ''EndLoop'') then lc - 1 else lc)"
  have cnt: "int (count_events h ''EndLoop'' [pm]) = (if t = Some (JStr ''EndLoop'') then 1 else 0)"
            "int (count_events h ''Loop'' [pm]) = (if t = Some (JStr ''Loop'') then 1 else 0)"
    using t by (auto simp: count_events_def ty_def split: if_splits)
  have lc'_eq: "lc' = lc + int (count_events h ''Loop'' [pm])
                        - int (count_events h ''EndLoop'' [pm])"
    unfolding cnt lc'_def by auto
  have "int (count_events h ''EndLoop'' (take 1 (pm # ps)))
          < lc + int (count_events h ''Loop'' (take 1 (pm # ps)))"
    using Cons.prems(2) by (metis One_nat_def Suc_leI length_Cons zero_less_Suc)
  then have pos: "lc' \<noteq> 0" unfolding lc'_eq by simp
  have rest: "\<forall>k \<le> length ps.
                int (count_events h ''EndLoop'' (take k ps))
                  < lc' + int (count_events h ''Loop'' (take k ps))"
  proof (intro allI impI)
    fix k assume "k \<le> length ps"
    then have "Suc k \<le> length (pm # ps)" by simp
    from Cons.prems(2)[rule_format, OF this]
    have a: "int (count_events h ''EndLoop'' (take (Suc k) (pm # ps)))
                 < lc + int (count_events h ''Loop'' (take (Suc k) (pm # ps)))" .
    have b: "count_events h ty (take (Suc k) (pm # ps))
               = count_events h ty [pm] + count_events h ty (take k ps)" for ty
      by (simp add: count_events_def)
    show "int (count_events h ''EndLoop'' (take k ps))
                 < lc' + int (count_events h ''Loop'' (take k ps))"
      using a unfolding lc'_eq b by linarith
  qed
  have "list_all (\<lambda>pm. active pm \<longrightarrow> readable h pm) ps"
    using Cons.prems(1) by simp
  from Cons.IH[OF this rest] have "find_end h ps (Suc j) lc' = Inr None" .
  then show ?case
    using pos t unfolding find_end_Cons ty_def[symmetric] lc'_def by (simp add: Let_def)
qed

lemma no_matching_end_loop_find_end:
  assumes "list_all (\<lambda>pm. active pm \<longrightarrow> readable h pm) rest"
    and "no_matching_end_loop h rest"
  shows "find_end h rest 0 1 = Inr None"
proof (rule find_end_runs_out[OF assms(1)])
  show "\<forall>k \<le> length rest.
          int (count_events h ''EndLoop'' (take k rest))
            < 1 + int (count_events h ''Loop'' (take k rest))"
  proof (intro allI impI)
    fix k assume "k \<le> length rest"
    then have "k < Suc (length rest)" by arith
    then have "k \<in> set [0 ..< Suc (length rest)]" by (simp del: upt_Suc)
    with assms(2) have "count_events h ''EndLoop'' (take k rest)
                          \<le> count_events h ''Loop'' (take k rest)"
      unfolding no_matching_end_loop_def list_all_iff by blast
    then show "int (count_events h ''EndLoop'' (take k rest))
                 < 1 + int (count_events h ''Loop'' (take k rest))"
      by simp
  qed
qed

text \<open>
  C5, amended: let the main loop of \<open>play\<close> be at a Loop event that has no matching
  EndLoop among the macros after it, and let the kind of each of these macros be readable
  (a pseudo-event among them decodes to a payload with a \<open>Type\<close>). Then the
  loop-detection scan reads all of them and ends with \<open>loop_count \<noteq> 0\<close>, and the Loop
  macro is skipped: the main loop goes on with the macro after it, in the same state, so
  the macros after the unmatched Loop are executed as the ordinary continuation of the main
  scan.
\<close>

theorem scan_unmatched_loop_skipped:
  assumes "event_type h m = Inr (Some (JStr ''Loop''))"
    and "list_all (\<lambda>pm. active pm \<longrightarrow> readable h pm) rest"
    and "no_matching_end_loop h rest"
  shows "find_end h rest 0 1 = Inr None
       \<and> scan h rec k fr at pre (m # rest) w = scan h rec k fr at (pre @ [m]) rest w"
  using no_matching_end_loop_find_end[OF assms(2,3)]
        step_unmatched_loop[OF assms(1) no_matching_end_loop_find_end[OF assms(2,3)]]
  by simp

theorem scan_unmatched_loop_skipped_witness:
  "no_matching_end_loop (demo_host demo_table [])
     [event ''l2'' repeat_loop_text, mk_macro ''a'' ''cmd_a'', event ''e2'' end_loop_text,
      mk_macro ''b'' ''cmd_b'']
   \<and> scan (demo_host demo_table []) no_play 0
        (default_frame (demo_action ''GROUP'') ''global_actions'' demo_world) None []
        (event ''l1'' repeat_loop_text
           # [event ''l2'' repeat_loop_text, mk_macro ''a'' ''cmd_a'', event ''e2'' end_loop_text,
              mk_macro ''b'' ''cmd_b''])
        demo_world
      = scan (demo_host demo_table []) no_play 0
        (default_frame (demo_action ''GROUP'') ''global_actions'' demo_world) None
        ([] @ [event ''l1'' repeat_loop_text])
        [event ''l2'' repeat_loop_text, mk_macro ''a'' ''cmd_a'', event ''e2'' end_loop_text,
         mk_macro ''b'' ''cmd_b'']
        demo_world"
proof -
  let ?rest = "[event ''l2'' repeat_loop_text, mk_macro ''a'' ''cmd_a'',
                event ''e2'' end_loop_text, mk_macro ''b'' ''cmd_b'']"
  have h1: "event_type (demo_host demo_table []) (event ''l1'' repeat_loop_text)
              = Inr (Some (JStr ''Loop''))"
    by code_simp
  have h2: "list_all (\<lambda>pm. active pm \<longrightarrow> readable (demo_host demo_table []) pm) ?rest"
    by code_simp
  have h3: "no_matching_end_loop (demo_host demo_table []) ?rest"
    by code_simp
  from h3 scan_unmatched_loop_skipped[OF h1 h2 h3] show ?thesis
    by blast
qed

text \<open>
  When a pseudo-event after the unmatched Loop does not decode, the loop-detection scan
  raises at it, and so does \<open>play\<close>, before the macros in between are executed.
\<close>

lemma play_unmatched_loop_undecodable:
  "map_option (\<lambda>rw. (fst rw, map call_command (invoked (snd rw))))
     (play (demo_host demo_table []) 1
        [mk_macro ''a'' ''cmd_a'', event ''l'' repeat_loop_text, mk_macro ''b'' ''cmd_b'',
         event ''x'' ''{'']
        (demo_action ''GROUP'') ''global_actions'' (JNum (- 1)) None None demo_world)
   = Some (Raised JSONDecodeError, [])"
  by code_simp

text \<open>
  C5, as stated, fails: on \<open>[Loop(RepeatCount = 3), a]\<close>, with no EndLoop, \<open>play\<close>
  invokes \<open>a\<close> once, as the next macro of the main scan. Had the remainder been taken as
  the body of the loop (\<open>loop_body\<close> on the body \<open>[a]\<close>), \<open>a\<close> would run three times.
\<close>

theorem play_unmatched_loop_runs_rest_once:
  "map_option (\<lambda>rw. (fst rw, map call_command (invoked (snd rw))))
     (play (demo_host demo_table []) 1 [event ''l'' repeat_loop_text, mk_macro ''a'' ''cmd_a'']
        (demo_action ''GROUP'') ''global_actions'' (JNum (- 1)) None None demo_world)
   = Some (Returned None, [''cmd_a''])
   \<and> map_option (\<lambda>rw. (fst rw, map call_command (invoked (snd rw))))
       (loop_body (demo_host demo_table []) (play (demo_host demo_table []) 4) 4
          (default_frame (demo_action ''GROUP'') ''global_actions'' demo_world)
          (event ''l'' repeat_loop_text) None [mk_macro ''a'' ''cmd_a''] []
          (JObj [(''Type'', JStr ''Loop''), (''StatementType'', JStr ''repeat''),
                 (''RepeatCount'', JNum 3)])
          demo_world)
     = Some (Stop (Returned None), [''cmd_a'', ''cmd_a'', ''cmd_a''])"
  by code_simp

section \<open>Selecting objects\<close>

lemma select_set_fields:
  "select_set n v sc = Inr sc' \<Longrightarrow>
     data_objects sc' = data_objects sc \<and> view_layer_objects sc' = view_layer_objects sc
     \<and> unselectable sc' = unselectable sc"
  by (auto simp: select_set_def split: if_splits)

lemma select_set_False_ok:
  "n \<in> set (data_objects sc) \<Longrightarrow> \<exists>sc'. select_set n False sc = Inr sc'"
  by (simp add: select_set_def)

lemma select_set_True_ok:
  assumes "n \<in> set (data_objects sc)" and "n \<in> set (view_layer_objects sc)"
    and "n \<notin> set (unselectable sc)"
  shows "\<exists>sc'. select_set n True sc = Inr sc' \<and> n \<in> set (selected sc')
               \<and> set (selected sc) \<subseteq> set (selected sc')"
  using assms by (auto simp: select_set_def)

lemma deselect_all_ok:
  "set ns \<subseteq> set (data_objects sc) \<Longrightarrow>
   \<exists>sc'. deselect_all ns sc = (None, sc') \<and> data_objects sc' = data_objects sc
          \<and> view_layer_objects sc' = view_layer_objects sc
          \<and> unselectable sc' = unselectable sc"
proof (induction ns arbitrary: sc)
  case Nil
  then show ?case by simp
next
  case (Cons n ns)
  then obtain sc1 where s1: "select_set n False sc = Inr sc1"
    using select_set_False_ok[of n sc] by auto
  have f: "data_objects sc1 = data_objects sc" "view_layer_objects sc1 = view_layer_objects sc"
          "unselectable sc1 = unselectable sc"
    using select_set_fields[OF s1] by simp_all
  have "set ns \<subseteq> set (data_objects sc1)" using Cons.prems f by simp
  from Cons.IH[OF this] obtain sc' where
    "deselect_all ns sc1 = (None, sc')" "data_objects sc' = data_objects sc1"
    "view_layer_objects sc' = view_layer_objects sc1" "unselectable sc' = unselectable sc1"
    by blast
  then show ?case using s1 f by simp
qed

text \<open>
  The loop over \<open>Objects\<close> when every named object that exists is in the view layer and
  can be selected: it raises nothing, and each of these objects ends up selected.
\<close>

lemma select_named_ok:
  assumes "\<forall>n \<in> set names. n \<in> set (data_objects sc) \<longrightarrow>
             n \<in> set (view_layer_objects sc) \<and> n \<notin> set (unselectable sc)"
  shows "\<exists>sc'. select_named (map JStr names) sc = (None, sc')
         \<and> data_objects sc' = data_objects sc
         \<and> view_layer_objects sc' = view_layer_objects sc
         \<and> unselectable sc' = unselectable sc
         \<and> set (selected sc) \<subseteq> set (selected sc')
         \<and> (\<forall>n \<in> set names. n \<in> set (data_objects sc) \<longrightarrow> n \<in> set (selected sc'))"
  using assms
proof (induction names arbitrary: sc)
  case Nil
  then show ?case by simp
next
  case (Cons n names)
  show ?case
  proof (cases "n \<in> set (data_objects sc)")
    case True
    then have v: "n \<in> set (view_layer_objects sc)" "n \<notin> set (unselectable sc)"
      using Cons.prems by simp_all
    from select_set_True_ok[OF True v] obtain sc1 where
      s1: "select_set n True sc = Inr sc1"
      and g: "n \<in> set (selected sc1)" "set (selected sc) \<subseteq> set (selected sc1)"
      by blast
    have f: "data_objects sc1 = data_objects sc" "view_layer_objects sc1 = view_layer_objects sc"
            "unselectable sc1 = unselectable sc"
      using select_set_fields[OF s1] by simp_all
    have p: "\<forall>x \<in> set names. x \<in> set (data_objects sc1) \<longrightarrow>
               x \<in> set (view_layer_objects sc1) \<and> x \<notin> set (unselectable sc1)"
      using Cons.prems f by simp
    from Cons.IH[OF p] obtain sc' where
      r: "select_named (map JStr names) sc1 = (None, sc')"
         "data_objects sc' = data_objects sc1"
         "view_layer_objects sc' = view_layer_objects sc1"
         "unselectable sc' = unselectable sc1"
         "set (selected sc1) \<subseteq> set (selected sc')"
         "\<forall>n \<in> set names. n \<in> set (data_objects sc1) \<longrightarrow> n \<in> set (selected sc')"
      by blast
    have a: "select_named (map JStr (n # names)) sc = (None, sc')"
      using True s1 r(1) by simp
    have b: "\<forall>x \<in> set (n # names). x \<in> set (data_objects sc) \<longrightarrow> x \<in> set (selected sc')"
      using r(5,6) g f by auto
    have c: "set (selected sc) \<subseteq> set (selected sc')" using g r(5) by blast
    show ?thesis using a b c r(2,3,4) f by (intro exI[of _ sc']) simp
  next
    case False
    have p: "\<forall>x \<in> set names. x \<in> set (data_objects sc) \<longrightarrow>
               x \<in> set (view_layer_objects sc) \<and> x \<notin> set (unselectable sc)"
      using Cons.prems by simp
    from Cons.IH[OF p] obtain sc' where
      r: "select_named (map JStr names) sc = (None, sc')"
         "data_objects sc' = data_objects sc"
         "view_layer_objects sc' = view_layer_objects sc"
         "unselectable sc' = unselectable sc"
         "set (selected sc) \<subseteq> set (selected sc')"
         "\<forall>n \<in> set names. n \<in> set (data_objects sc) \<longrightarrow> n \<in> set (selected sc')"
      by blast
    have a: "select_named (map JStr (n # names)) sc = (None, sc')"
      using False r(1) by simp
    have b: "\<forall>x \<in> set (n # names). x \<in> set (data_objects sc) \<longrightarrow> x \<in> set (selected sc')"
      using r(6) False by auto
    show ?thesis using a b r(2,3,4,5) by (intro exI[of _ sc']) simp
  qed
qed

lemma context_selected_objects_exist:
  "set (context_selected_objects sc) \<subseteq> set (data_objects sc)"
  by (auto simp: context_selected_objects_def)

lemma select_object_event_missing:
  assumes "jget_default data ''Objects'' (JArr []) = JArr (map JStr names)"
    and "\<forall>n \<in> set names. n \<in> set (data_objects (scene w)) \<longrightarrow>
           n \<in> set (view_layer_objects (scene w)) \<and> n \<notin> set (unselectable (scene w))"
    and "jget_default data ''Object'' (JStr []) = JStr name"
    and "name \<noteq> []"
    and "name \<notin> set (view_layer_objects (scene w))"
  shows "\<exists>w'. select_object_event act m at data w
                = (Stop (Returned (Some (Msg (missing_object_msg name)))), w')
          \<and> action_id act \<in> action_alert w' \<and> macro_id m \<in> macro_alert w'
          \<and> (\<forall>n \<in> set names. n \<in> set (data_objects (scene w))
                 \<longrightarrow> n \<in> set (selected (scene w')))
          \<and> invoked w' = invoked w"
proof -
  define sc where "sc = scene w"
  define r0 where "r0 = (if \<not> truthy (jget_default data ''KeepSelection'' (JBool False))
               then deselect_all (context_selected_objects sc) sc else (None, sc))"
  obtain sc1 where d: "r0 = (None, sc1)"
      "data_objects sc1 = data_objects sc" "view_layer_objects sc1 = view_layer_objects sc"
      "unselectable sc1 = unselectable sc"
    using deselect_all_ok[OF context_selected_objects_exist[of sc]]
    unfolding r0_def by (cases "truthy (jget_default data ''KeepSelection'' (JBool False))") auto
  have p: "\<forall>n \<in> set names. n \<in> set (data_objects sc1) \<longrightarrow>
             n \<in> set (view_layer_objects sc1) \<and> n \<notin> set (unselectable sc1)"
    using assms(2) d(2,3,4) by (simp add: sc_def)
  obtain sc2 where n: "select_named (map JStr names) sc1 = (None, sc2)"
         "data_objects sc2 = data_objects sc1"
         "view_layer_objects sc2 = view_layer_objects sc1"
         "\<forall>n \<in> set names. n \<in> set (data_objects sc1) \<longrightarrow> n \<in> set (selected sc2)"
    using select_named_ok[OF p] by blast
  have nv: "name \<notin> set (view_layer_objects sc2)"
    using assms(5) n(3) d(3) by (simp add: sc_def)
  have "select_object_event act m at data w
          = (case r0 of
               (Some e, sc1) \<Rightarrow> (Stop (Raised e), w\<lparr>scene := sc1\<rparr>)
             | (None, sc1) \<Rightarrow>
             (case iterable (jget_default data ''Objects'' (JArr [])) of
                Inl e \<Rightarrow> (Stop (Raised e), w\<lparr>scene := sc1\<rparr>)
              | Inr names \<Rightarrow>
                  (case select_named names sc1 of
                     (Some e, sc2) \<Rightarrow> (Stop (Raised e), w\<lparr>scene := sc2\<rparr>)
                   | (None, sc2) \<Rightarrow>
                       (case jget_default data ''Object'' (JStr []) of
                          JStr name \<Rightarrow>
                            if name = [] then (Next at, w\<lparr>scene := sc2\<rparr>)
                            else if \<not> (name \<in> set (data_objects sc2)
                                       \<and> name \<in> set (view_layer_objects sc2))
                            then (Stop (Returned (Some (Msg (missing_object_msg name)))),
                                  set_alert act m (w\<lparr>scene := sc2\<rparr>))
                            else (case select_set name True
                                         (sc2\<lparr>active_object := Some name\<rparr>) of
                                    Inl e \<Rightarrow> (Stop (Raised e), w\<lparr>scene := sc2\<rparr>)
                                  | Inr sc3 \<Rightarrow> (Next at, w\<lparr>scene := sc3\<rparr>))
                        | other \<Rightarrow> (Stop (Raised TypeError), w\<lparr>scene := sc2\<rparr>)))))"
    unfolding select_object_event_def r0_def sc_def Let_def ..
  also have "\<dots> = (Stop (Returned (Some (Msg (missing_object_msg name)))),
                    set_alert act m (w\<lparr>scene := sc2\<rparr>))"
    using assms(1,3,4) nv by (simp add: d(1) n(1) iterable_def)
  finally have e: "select_object_event act m at data w
          = (Stop (Returned (Some (Msg (missing_object_msg name)))),
             set_alert act m (w\<lparr>scene := sc2\<rparr>))" .
  have "\<forall>n \<in> set names. n \<in> set (data_objects (scene w)) \<longrightarrow> n \<in> set (selected sc2)"
    using n(4) d(2) by (simp add: sc_def)
  then show ?thesis
    unfolding e by (intro exI[of _ "set_alert act m (w\<lparr>scene := sc2\<rparr>)"]) (simp add: set_alert_def)
qed

lemma step_select_object:
  assumes "event_type h m = Inr (Some (JStr ''Select Object''))" and "decode h m = Inr data"
  shows "step h rec k fr at pre m rest w
           = Some (select_object_event (fr_action fr) m at data w)"
proof -
  from event_typeD[OF assms(1)] assms(2) have
    d: "is_event m" "jget data ''Type'' = Inr (JStr ''Select Object'')" by auto
  show ?thesis using d assms(2) by (simp add: step_def)
qed

text \<open>
  C6, as stated, fails: an object named in \<open>Objects\<close> that exists but cannot be selected
  is left unselected by \<open>select_set\<close>. On \<open>Objects = [Lamp, Locked]\<close> and the missing
  \<open>Object\<close> Ghost, \<open>play\<close> returns the failure string with Lamp selected and Locked,
  which exists, not selected.
\<close>

theorem play_select_object_unselectable:
  "map_option (\<lambda>rw. (fst rw, selected (scene (snd rw))))
     (play (demo_host demo_table []) 1
        [event ''s'' select_locked_text, mk_macro ''b'' ''cmd_b'']
        (demo_action ''GROUP'') ''global_actions'' (JNum (- 1)) None None demo_world)
   = Some (Returned (Some (Msg (missing_object_msg ''Ghost''))), [''Lamp''])
   \<and> ''Locked'' \<in> set (data_objects (scene demo_world))"
  by code_simp

text \<open>
  An object named in \<open>Objects\<close> that is in \<open>bpy.data.objects\<close> but not in the view layer
  makes \<open>select_set\<close> raise, outside any \<open>try\<close>: \<open>play\<close> raises RuntimeError, with no
  failure string and no alert. The loop over \<open>Objects\<close> checks \<open>bpy.data.objects\<close> only,
  where the code for \<open>Object\<close> checks the view layer as well.
\<close>

lemma play_select_object_outside_view_layer:
  "map_option (\<lambda>rw. (fst rw, selected (scene (snd rw)), action_alert (snd rw),
                      macro_alert (snd rw)))
     (play (demo_host demo_table []) 1
        [event ''s'' select_orphan_text, mk_macro ''b'' ''cmd_b'']
        (demo_action ''GROUP'') ''global_actions'' (JNum (- 1)) None None demo_world)
   = Some (Raised RuntimeError, [], {}, {})"
  by code_simp

text \<open>
  C6, amended: let the main loop of \<open>play\<close> be at a \<open>Select Object\<close> event whose
  \<open>Objects\<close> field is a list of names, each of which, when it names an existing object,
  names one that is in the active view layer and can be selected, and whose \<open>Object\<close>
  field is a non-empty name that is not an object of the active view layer. Then the pass
  ends there: the main loop returns the failure string, which starts with that name; the
  action and the macro are flagged; every name of \<open>Objects\<close> that is an existing object is
  selected in the resulting state; and no command has been invoked.
\<close>

theorem scan_select_object_missing:
  assumes "event_type h m = Inr (Some (JStr ''Select Object''))"
    and "decode h m = Inr data"
    and "jget_default data ''Objects'' (JArr []) = JArr (map JStr names)"
    and "\<forall>n \<in> set names. n \<in> set (data_objects (scene w)) \<longrightarrow>
           n \<in> set (view_layer_objects (scene w)) \<and> n \<notin> set (unselectable (scene w))"
    and "jget_default data ''Object'' (JStr []) = JStr name"
    and "name \<noteq> []"
    and "name \<notin> set (view_layer_objects (scene w))"
  shows "\<exists>w'. scan h rec k fr at pre (m # rest) w
                = Some (Exit (Returned (Some (Msg (missing_object_msg name)))), w')
          \<and> take (length name) (missing_object_msg name) = name
          \<and> action_id (fr_action fr) \<in> action_alert w' \<and> macro_id m \<in> macro_alert w'
          \<and> (\<forall>n \<in> set names. n \<in> set (data_objects (scene w))
                 \<longrightarrow> n \<in> set (selected (scene w')))
          \<and> invoked w' = invoked w"
proof -
  from select_object_event_missing[OF assms(3-7), of "fr_action fr" m at]
  obtain w' where
    e: "select_object_event (fr_action fr) m at data w
          = (Stop (Returned (Some (Msg (missing_object_msg name)))), w')"
    and p: "action_id (fr_action fr) \<in> action_alert w'" "macro_id m \<in> macro_alert w'"
      "\<forall>n \<in> set names. n \<in> set (data_objects (scene w)) \<longrightarrow> n \<in> set (selected (scene w'))"
      "invoked w' = invoked w"
    by blast
  have s: "scan h rec k fr at pre (m # rest) w
             = Some (Exit (Returned (Some (Msg (missing_object_msg name)))), w')"
    by (simp add: step_select_object[OF assms(1,2)] e)
  have t: "take (length name) (missing_object_msg name) = name"
    by (simp add: missing_object_msg_def)
  show ?thesis using s t p by (intro exI[of _ w']) simp
qed

lemma play_exit:
  assumes "pre_scan h atype (action_id act) (filter active macros) (render_complete_macros w)
             = Inr (render_complete_macros w)"
    and "scan h (play h n) n
           \<lparr>fr_action = act, fr_action_type = atype, fr_looping_count = looping_count,
            fr_macros_after_loop = macros_after_loop,
            fr_macros_before_timer = macros_before_timer,
            fr_base_area = o_area (ctx (scene w))\<rparr>
           None [] (filter active macros) w
         = Some (Exit r, w')"
  shows "play h (Suc n) macros act atype looping_count macros_after_loop macros_before_timer w
           = Some (r, w')"
  by (simp add: play_pass_def assms)

theorem scan_select_object_missing_witness:
  "\<exists>w'. play (demo_host demo_table []) (Suc 0)
           [event ''s'' select_text, mk_macro ''b'' ''cmd_b'']
           (demo_action ''GROUP'') ''global_actions'' (JNum (- 1)) None None demo_world
         = Some (Returned (Some (Msg (missing_object_msg ''Ghost''))), w')
       \<and> ''act'' \<in> action_alert w' \<and> ''s'' \<in> macro_alert w'
       \<and> ''Lamp'' \<in> set (selected (scene w'))
       \<and> invoked w' = []"
proof -
  let ?H = "demo_host demo_table []"
  let ?act = "demo_action ''GROUP''"
  let ?m = "event ''s'' select_text"
  let ?data = "JObj [(''Type'', JStr ''Select Object''),
                     (''Objects'', JArr [JStr ''Lamp'', JStr ''Gone'']),
                     (''Object'', JStr ''Ghost'')]"
  let ?fr = "\<lparr>fr_action = ?act, fr_action_type = ''global_actions'',
              fr_looping_count = JNum (- 1), fr_macros_after_loop = None,
              fr_macros_before_timer = None,
              fr_base_area = o_area (ctx (scene demo_world))\<rparr>"
  have h1: "event_type ?H ?m = Inr (Some (JStr ''Select Object''))"
    by code_simp
  have h2: "decode ?H ?m = Inr ?data"
    by code_simp
  have h3: "jget_default ?data ''Objects'' (JArr []) = JArr (map JStr [''Lamp'', ''Gone''])"
    by code_simp
  have h4: "\<forall>n \<in> set [''Lamp'', ''Gone'']. n \<in> set (data_objects (scene demo_world)) \<longrightarrow>
              n \<in> set (view_layer_objects (scene demo_world))
              \<and> n \<notin> set (unselectable (scene demo_world))"
    by code_simp
  have h5: "jget_default ?data ''Object'' (JStr []) = JStr ''Ghost''"
    by code_simp
  have h6: "''Ghost'' \<noteq> []" by simp
  have h7: "''Ghost'' \<notin> set (view_layer_objects (scene demo_world))"
    by code_simp
  have f: "filter active [?m, mk_macro ''b'' ''cmd_b''] = ?m # [mk_macro ''b'' ''cmd_b'']"
    by code_simp
  have ps: "pre_scan ?H ''global_actions'' (action_id ?act)
              (filter active [?m, mk_macro ''b'' ''cmd_b'']) (render_complete_macros demo_world)
            = Inr (render_complete_macros demo_world)"
    by code_simp
  have a: "action_id (fr_action ?fr) = ''act''"
    by code_simp
  have m: "macro_id ?m = ''s''"
    by code_simp
  have l: "''Lamp'' \<in> set (data_objects (scene demo_world))"
    by code_simp
  have i: "invoked demo_world = []"
    by code_simp
  from scan_select_object_missing[OF h1 h2 h3 h4 h5 h6 h7, of "play ?H 0" 0 ?fr None "[]"
         "[mk_macro ''b'' ''cmd_b'']"]
  obtain w' where
    s: "scan ?H (play ?H 0) 0 ?fr None [] (?m # [mk_macro ''b'' ''cmd_b'']) demo_world
        = Some (Exit (Returned (Some (Msg (missing_object_msg ''Ghost'')))), w')"
    and p: "''act'' \<in> action_alert w'" "''s'' \<in> macro_alert w'"
       "''Lamp'' \<in> set (selected (scene w'))" "invoked w' = []"
    unfolding a m i using l by auto
  have "play ?H (Suc 0) [?m, mk_macro ''b'' ''cmd_b''] ?act ''global_actions'' (JNum (- 1))
          None None demo_world
        = Some (Returned (Some (Msg (missing_object_msg ''Ghost''))), w')"
    by (rule play_exit[OF ps]) (simp only: f s)
  with p show ?thesis by blast
qed

section \<open>Running a command for each selected object\<close>

text \<open>
  For the first object of a non-empty selection, the loop selects the object and then
  fails at the assignment to \<open>context.selectable_objects\<close>, before \<open>exec\<close>.
\<close>

lemma individual_loop_first_object:
  "select_set n True (scene w) = Inr sc1 \<Longrightarrow>
   individual_loop h cmd ov (n # ns) w
     = (Some (AttributeError ''selectable_objects''), w\<lparr>scene := sc1\<rparr>)"
  by (simp add: assign_context_member_def)

text \<open>
  C7. The claim: under INDIVIDUAL the command is invoked once per object of the selection
  captured at entry, and that selection is restored afterwards, also when the execution
  fails. With Cube and Lamp selected, \<open>play\<close> in INDIVIDUAL mode deselects both, selects
  Cube and fails at the assignment to the read-only \<open>context.selectable_objects\<close>: it
  returns the AttributeError and flags the action and the macro; the command has not been
  invoked at all, and Cube alone is left selected, since nothing puts the selection back on
  a failure.
\<close>

theorem play_individual_fails_unrestored:
  "map_option
     (\<lambda>rw. (fst rw, map call_command (invoked (snd rw)), selected (scene (snd rw)),
            action_alert (snd rw), macro_alert (snd rw)))
     (play (demo_host demo_table []) 1 [mk_macro ''a'' ''cmd_a'']
        (demo_action ''INDIVIDUAL'') ''global_actions'' (JNum (- 1)) None None demo_world)
   = Some (Returned (Some (Exc (AttributeError ''selectable_objects''))), [],
           [''Cube''], {''act''}, {''a''})
   \<and> context_selected_objects (scene demo_world) = [''Cube'', ''Lamp'']"
  by code_simp

section \<open>Sequences of plain commands\<close>
















section \<open>Counted loops\<close>

lemma py_while_without_fuel:
  assumes "py_while 0 cond body w = Some (x, w')"
  shows "py_while k cond body' w = Some (x, w')"
proof (cases "cond (scene w)")
  case (Inl e)
  with assms show ?thesis by simp
next
  case (Inr b)
  with assms show ?thesis by (cases b) simp_all
qed

lemma count_loop_no_play:
  assumes "count_loop n (no_play a b c d e f) w = Some (r, w')"
  shows "n = 0 \<and> r = Completed \<and> w' = w"
  using assms by (cases n) (simp_all add: no_play_def)

lemma timer_event_stops: "\<exists>r. fst (timer_event fr pre m rest data w) = Stop r"
  by (simp add: timer_event_def Let_def split: sum.split)

lemma loop_body_next:
  assumes "loop_body h no_play 0 fr m at lm ma data w = Some (Next at', w')"
    and "fr_action fr' = fr_action fr" and "fr_base_area fr' = fr_base_area fr"
  shows "loop_body h rec k fr' m at lm ma data w = Some (Next at', w')"
proof (cases "jget data ''StatementType''")
  case (Inl e)
  with assms(1) show ?thesis by (simp add: loop_body_def)
next
  case (Inr st)
  consider (python) "st = JStr ''python''" | (count) "st = JStr ''count''"
    | (repeat) "st \<noteq> JStr ''python''" "st \<noteq> JStr ''count''" by blast
  then show ?thesis
  proof cases
    case python
    show ?thesis
    proof (cases "jget data ''PyStatement''")
      case (Inl e)
      with assms(1) Inr python show ?thesis by (simp add: loop_body_def)
    next
      case py: (Inr v)
      show ?thesis
      proof (cases "\<exists>stmt. v = JStr stmt")
        case False
        with assms(1) Inr python py show ?thesis by (cases v) (simp_all add: loop_body_def)
      next
        case True
        then obtain stmt where v: "v = JStr stmt" by blast
        let ?p0 = "py_while 0 (eval_py h stmt)
                     (no_play lm (fr_action fr) (fr_action_type fr) (JNum (- 1)) None None) w"
        from assms(1) Inr python py v obtain x w1 where p0: "?p0 = Some (x, w1)"
          by (cases ?p0) (auto simp: loop_body_def)
        have x: "x = None"
          using assms(1) Inr python py v p0 by (cases x) (auto simp: loop_body_def)
        have rc: "run_command h (fr_action fr) (fr_base_area fr) m at w1 = (Next at', w')"
          using assms(1) Inr python py v p0 x by (simp add: loop_body_def)
        have "py_while k (eval_py h stmt)
                (rec lm (fr_action fr') (fr_action_type fr') (JNum (- 1)) None None) w = Some (None, w1)"
          using py_while_without_fuel[OF p0] x by simp
        then show ?thesis
          using Inr python py v rc assms(2,3) by (simp add: loop_body_def)
      qed
    qed
  next
    case count
    show ?thesis
    proof (cases "count_range data")
      case (Inl e)
      with assms(1) Inr count show ?thesis by (simp add: loop_body_def)
    next
      case cr: (Inr n)
      let ?c0 = "count_loop n (no_play lm (fr_action fr) (fr_action_type fr) (JNum (- 1)) None None) w"
      from assms(1) Inr count cr obtain r w1 where c0: "?c0 = Some (r, w1)"
        by (cases ?c0) (auto simp: loop_body_def)
      from count_loop_no_play[OF c0] have n: "n = 0" "r = Completed" "w1 = w" by simp_all
      have rc: "run_command h (fr_action fr) (fr_base_area fr) m at w = (Next at', w')"
        using assms(1) Inr count cr c0 n by (simp add: loop_body_def)
      show ?thesis
        using Inr count cr n rc assms(2,3) by (simp add: loop_body_def)
    qed
  next
    case repeat
    show ?thesis
    proof (cases "jget data ''RepeatCount''")
      case (Inl e)
      with assms(1) Inr repeat show ?thesis by (simp add: loop_body_def)
    next
      case rp: (Inr n)
      with assms(1) Inr repeat show ?thesis by (simp add: loop_body_def no_play_def)
    qed
  qed
qed

lemma loop_event_next:
  assumes "loop_event h no_play 0 fr m at rest data w = Some (Next at', w')"
    and "fr_action fr' = fr_action fr" and "fr_base_area fr' = fr_base_area fr"
  shows "loop_event h rec k fr' m at rest data w = Some (Next at', w')"
proof (cases "find_end h rest 0 1")
  case (Inl e)
  with assms(1) show ?thesis by (simp add: loop_event_def)
next
  case (Inr e)
  show ?thesis
  proof (cases e)
    case None
    with assms(1) Inr show ?thesis by (simp add: loop_event_def)
  next
    case (Some j)
    with assms(1) Inr
    have "loop_body h no_play 0 fr m at (take j rest) (drop (Suc j) rest) data w
            = Some (Next at', w')"
      by (simp add: loop_event_def)
    from loop_body_next[OF this assms(2,3)] Inr Some show ?thesis
      by (simp add: loop_event_def)
  qed
qed

text \<open>
  A step of the main loop that goes on to the next macro without a nested call of
  \<open>play\<close> is the same step whatever the callback, the fuel, the loop count and the
  macros after the loop of the frame.
\<close>

lemma step_next:
  assumes "step h no_play 0 fr at pre m rest w = Some (Next at', w')"
    and "fr_action fr' = fr_action fr" and "fr_base_area fr' = fr_base_area fr"
  shows "step h rec k fr' at pre m rest w = Some (Next at', w')"
proof (cases "is_event m")
  case False
  with assms show ?thesis by (simp add: step_def)
next
  case True
  show ?thesis
  proof (cases "decode h m")
    case (Inl e)
    with assms(1) True show ?thesis by (simp add: step_def)
  next
    case (Inr data)
    show ?thesis
    proof (cases "jget data ''Type''")
      case (Inl e)
      with assms(1) True Inr show ?thesis by (simp add: step_def)
    next
      case ty: (Inr ty)
      consider (unhashable) "\<not> hashable ty"
        | (rc) "hashable ty" "ty = JStr ''Render Complete''"
        | (timer) "hashable ty" "ty = JStr ''Timer''"
        | (loop) "hashable ty" "ty = JStr ''Loop''"
        | (other) "hashable ty" "ty \<noteq> JStr ''Render Complete''" "ty \<noteq> JStr ''Timer''"
                  "ty \<noteq> JStr ''Loop''"
        by blast
      then show ?thesis
      proof cases
        case unhashable
        with assms(1) True Inr ty show ?thesis by (simp add: step_def)
      next
        case rc
        with assms(1) True Inr ty show ?thesis by (simp add: step_def)
      next
        case timer
        obtain r where "fst (timer_event fr pre m rest data w) = Stop r"
          using timer_event_stops by blast
        with assms(1) True Inr ty timer show ?thesis
          by (simp add: step_def prod_eq_iff)
      next
        case loop
        with assms(1) True Inr ty
        have "loop_event h no_play 0 fr m at rest data w = Some (Next at', w')"
          by (simp add: step_def)
        from loop_event_next[OF this assms(2,3)] True Inr ty loop show ?thesis
          by (simp add: step_def)
      next
        case other
        with assms True Inr ty show ?thesis by (simp add: step_def split: if_splits)
      qed
    qed
  qed
qed

lemma step_next_passed:
  assumes "step h rec k fr at pre m rest w = Some (Next at', w')"
  shows "passed_by_pre_scan h m"
proof (cases "is_event m")
  case False
  then show ?thesis by (simp add: passed_by_pre_scan_def event_type_def)
next
  case True
  show ?thesis
  proof (cases "decode h m")
    case (Inl e)
    with assms True show ?thesis by (simp add: step_def)
  next
    case (Inr data)
    show ?thesis
    proof (cases "jget data ''Type''")
      case (Inl e)
      with assms True Inr show ?thesis by (simp add: step_def)
    next
      case ty: (Inr ty)
      have "ty \<noteq> JStr ''Render Complete''"
      proof
        assume "ty = JStr ''Render Complete''"
        with assms True Inr ty show False by (simp add: step_def)
      qed
      with True Inr ty show ?thesis by (simp add: passed_by_pre_scan_def event_type_def)
    qed
  qed
qed

lemma scan_completed_passed:
  "scan h rec k fr at pre todo w = Some (Completed, w') \<Longrightarrow>
   list_all (passed_by_pre_scan h) todo"
proof (induction todo arbitrary: at pre w)
  case Nil
  then show ?case by simp
next
  case (Cons m todo)
  from Cons.prems obtain sr w1 where s: "step h rec k fr at pre m todo w = Some (sr, w1)"
    by (cases "step h rec k fr at pre m todo w") auto
  from Cons.prems s obtain at1 where n: "sr = Next at1"
    by (cases sr) auto
  from Cons.prems s n have "scan h rec k fr at1 (pre @ [m]) todo w1 = Some (Completed, w')"
    by simp
  from Cons.IH[OF this] step_next_passed[OF s[unfolded n]] show ?case by simp
qed

lemma scan_completed:
  assumes "fr_action fr' = fr_action fr" and "fr_base_area fr' = fr_base_area fr"
  shows "scan h no_play 0 fr at pre todo w = Some (Completed, w') \<Longrightarrow>
         scan h rec k fr' at pre todo w = Some (Completed, w')"
proof (induction todo arbitrary: at pre w)
  case Nil
  then show ?case by simp
next
  case (Cons m todo)
  from Cons.prems obtain sr w1 where s: "step h no_play 0 fr at pre m todo w = Some (sr, w1)"
    by (cases "step h no_play 0 fr at pre m todo w") auto
  from Cons.prems s obtain at1 where n: "sr = Next at1"
    by (cases sr) auto
  from Cons.prems s n have "scan h no_play 0 fr at1 (pre @ [m]) todo w1 = Some (Completed, w')"
    by simp
  from Cons.IH[OF this] step_next[OF s[unfolded n] assms, of rec k] show ?case by simp
qed

lemma direct_loop_filter:
  "direct_loop h act atype n (filter active body) w = direct_loop h act atype n body w"
  by (induction n arbitrary: w)
     (simp_all split: option.split prod.split flow.split)

lemma direct_loop_Suc:
  assumes "direct_loop h act atype (Suc n) body w = Some w'"
  shows "\<exists>w1. scan h no_play 0 (default_frame act atype w) None [] (filter active body) w
                 = Some (Completed, w1)
              \<and> direct_loop h act atype n body w1 = Some w'"
proof -
  let ?s = "scan h no_play 0 (default_frame act atype w) None [] (filter active body) w"
  from assms obtain r w1 where s: "?s = Some (r, w1)"
    by (cases ?s) auto
  with assms have "r = Completed" by (cases r) auto
  with assms s show ?thesis by simp
qed

text \<open>
  One pass of \<open>play\<close> over a body whose main loop runs to its end: the pre-scan leaves
  the queue alone and the pass arrives at the loop-restart logic.
\<close>

lemma play_pass_completed:
  assumes "scan h no_play 0 (default_frame act atype w) None [] (filter active body) w
             = Some (Completed, w1)"
  shows "play_pass h rec k body act atype (JNum c) macros_after_loop None w
           = (if c - 1 > 0
              then rec (filter active body) act atype (JNum (c - 1)) macros_after_loop None w1
              else if c - 1 = 0
              then (case macros_after_loop of
                      None \<Rightarrow> Some (Raised TypeError, w1)
                    | Some after \<Rightarrow> rec after act atype (JNum (- 1)) None None w1)
              else Some (Returned None, w1))"
proof -
  let ?fr = "\<lparr>fr_action = act, fr_action_type = atype, fr_looping_count = JNum c,
              fr_macros_after_loop = macros_after_loop, fr_macros_before_timer = None,
              fr_base_area = o_area (ctx (scene w))\<rparr>"
  have p: "pre_scan h atype (action_id act) (filter active body) (render_complete_macros w)
             = Inr (render_complete_macros w)"
    using pre_scan_passed[OF scan_completed_passed[OF assms]] .
  have s: "scan h rec k ?fr None [] (filter active body) w = Some (Completed, w1)"
    by (rule scan_completed[OF _ _ assms]) (simp_all add: default_frame_def)
  show ?thesis
    by (simp add: play_pass_def p s decrement_def)
qed

lemma play_counted:
  assumes "0 < N"
  shows "direct_loop h act atype N body w = Some w' \<Longrightarrow>
         play h (N + n) body act atype (JNum (int N)) (Some after) None w
           = play h n after act atype (JNum (- 1)) None None w'"
  using assms
proof (induction N arbitrary: body w)
  case 0
  then show ?case by simp
next
  case (Suc N)
  from direct_loop_Suc[OF Suc.prems(1)] obtain w1 where
    s: "scan h no_play 0 (default_frame act atype w) None [] (filter active body) w
          = Some (Completed, w1)"
    and d: "direct_loop h act atype N body w1 = Some w'"
    by blast
  have pp: "play h (Suc N + n) body act atype (JNum (int (Suc N))) (Some after) None w
              = (if 0 < N
                 then play h (N + n) (filter active body) act atype (JNum (int N)) (Some after) None w1
                 else play h (N + n) after act atype (JNum (- 1)) None None w1)"
    using play_pass_completed[OF s, of "play h (N + n)" "N + n" "int (Suc N)" "Some after"]
    by simp
  show ?case
  proof (cases "0 < N")
    case True
    have "direct_loop h act atype N (filter active body) w1 = Some w'"
      using d by (simp add: direct_loop_filter)
    from Suc.IH[OF this True] pp True show ?thesis by simp
  next
    case False
    then have "N = 0" by simp
    with d pp show ?thesis by simp
  qed
qed

text \<open>
  C2, as stated, fails: when a command of the body raises, the first pass over the body
  ends with the error; the body is not run \<open>N\<close> times and the macros after the EndLoop
  are not played.
\<close>

theorem play_counted_loop_failing_body:
  "map_option (\<lambda>rw. (fst rw, map call_command (invoked (snd rw))))
     (play (demo_host demo_table [(''cmd_a'', HostError ''boom'')]) 5
        [event ''l'' repeat_loop_text, mk_macro ''a'' ''cmd_a'',
         event ''e'' end_loop_text, mk_macro ''b'' ''cmd_b'']
        (demo_action ''GROUP'') ''global_actions'' (JNum (- 1)) None None demo_world)
   = Some (Returned (Some (Exc (HostError ''boom''))), [''cmd_a''])"
  by code_simp

text \<open>
  C2, amended: let the main loop of \<open>play\<close>, called without \<open>macros_before_timer\<close>, be at
  a Loop event of the counted form with \<open>RepeatCount = N\<close>, \<open>N \<ge> 1\<close>, whose matching
  EndLoop is \<open>j\<close> macros further, and let running the body directly \<open>N\<close> times in a plain
  loop succeed (each pass goes through the whole body: no error, no Timer, no
  \<open>Render Complete\<close>, no nested call of \<open>play\<close>) and end in the state \<open>w'\<close>. Then the
  pass ends with what \<open>play\<close> returns on the macros after the EndLoop, started in \<open>w'\<close>
  under the default loop arguments: the body has been executed exactly as by the \<open>N\<close>
  direct runs. Of the fuel \<open>N + n\<close>, the loop uses \<open>N\<close> and leaves \<open>n\<close> to the
  continuation.
\<close>

theorem scan_counted_loop:
  assumes "event_type h m = Inr (Some (JStr ''Loop''))"
    and "decode h m = Inr data"
    and "find_end h rest 0 1 = Inr (Some j)"
    and "jget data ''StatementType'' = Inr st"
    and "st \<noteq> JStr ''python''" and "st \<noteq> JStr ''count''"
    and "jget data ''RepeatCount'' = Inr (JNum (int N))"
    and "0 < N"
    and "fr_macros_before_timer fr = None"
    and "direct_loop h (fr_action fr) (fr_action_type fr) N (take j rest) w = Some w'"
  shows "scan h (play h (N + n)) k fr at pre (m # rest) w
           = map_option (\<lambda>rw. (Exit (fst rw), snd rw))
               (play h n (drop (Suc j) rest) (fr_action fr) (fr_action_type fr) (JNum (- 1))
                  None None w')"
proof -
  from event_typeD[OF assms(1)] assms(2) have
    d: "is_event m" "jget data ''Type'' = Inr (JStr ''Loop'')" by auto
  let ?p = "play h (N + n) (take j rest) (fr_action fr) (fr_action_type fr) (JNum (int N))
              (Some (drop (Suc j) rest)) None w"
  have st: "step h (play h (N + n)) k fr at pre m rest w
              = (case ?p of None \<Rightarrow> None | Some (r, w'') \<Rightarrow> Some (Stop r, w''))"
    using d assms(2-7,9) by (simp add: step_def loop_event_def loop_body_def)
  have pc: "?p = play h n (drop (Suc j) rest) (fr_action fr) (fr_action_type fr) (JNum (- 1))
                   None None w'"
    by (rule play_counted[OF assms(8) assms(10)])
  show ?thesis
    unfolding scan.simps st pc
    by (simp split: option.split prod.split)
qed

theorem scan_counted_loop_witness:
  "map_option invoked
     (direct_loop (demo_host demo_table []) (demo_action ''GROUP'') ''global_actions'' 3
        (take 1 [mk_macro ''a'' ''cmd_a'', event ''e'' end_loop_text, mk_macro ''b'' ''cmd_b''])
        demo_world)
   = Some (map (\<lambda>c. \<lparr>call_command = c,
                       call_override = \<lparr>o_window = None, o_screen = None, o_area = Some 0,
                                        o_region = Some \<lparr>region_name = ''quad_a'',
                                                         region_type = ''WINDOW''\<rparr>\<rparr>,
                       call_object = None\<rparr>)
              [''cmd_a'', ''cmd_a'', ''cmd_a''])
   \<and> map_option (\<lambda>rw. (fst rw, map call_command (invoked (snd rw))))
       (scan (demo_host demo_table []) (play (demo_host demo_table []) (3 + 1)) 0
          (default_frame (demo_action ''GROUP'') ''global_actions'' demo_world) None []
          (event ''l'' repeat_loop_text
             # [mk_macro ''a'' ''cmd_a'', event ''e'' end_loop_text, mk_macro ''b'' ''cmd_b''])
          demo_world)
     = Some (Exit (Returned None), [''cmd_a'', ''cmd_a'', ''cmd_a'', ''cmd_b''])"
proof -
  let ?H = "demo_host demo_table []"
  let ?fr = "default_frame (demo_action ''GROUP'') ''global_actions'' demo_world"
  let ?rest = "[mk_macro ''a'' ''cmd_a'', event ''e'' end_loop_text, mk_macro ''b'' ''cmd_b'']"
  let ?data = "JObj [(''Type'', JStr ''Loop''), (''StatementType'', JStr ''repeat''),
                     (''RepeatCount'', JNum 3)]"
  let ?d = "direct_loop ?H (demo_action ''GROUP'') ''global_actions'' 3 (take 1 ?rest) demo_world"
  have h1: "event_type ?H (event ''l'' repeat_loop_text) = Inr (Some (JStr ''Loop''))"
    by code_simp
  have h2: "decode ?H (event ''l'' repeat_loop_text) = Inr ?data"
    by code_simp
  have h3: "find_end ?H ?rest 0 1 = Inr (Some 1)"
    by code_simp
  have h4: "jget ?data ''StatementType'' = Inr (JStr ''repeat'')"
    by code_simp
  have h5: "JStr ''repeat'' \<noteq> JStr ''python''" by simp
  have h6: "JStr ''repeat'' \<noteq> JStr ''count''" by simp
  have h7: "jget ?data ''RepeatCount'' = Inr (JNum (int 3))"
    by code_simp
  have h8: "0 < (3::nat)" by simp
  have h9: "fr_macros_before_timer ?fr = None"
    by code_simp
  have dl: "map_option invoked ?d
              = Some (map (\<lambda>c. \<lparr>call_command = c,
                       call_override = \<lparr>o_window = None, o_screen = None, o_area = Some 0,
                                        o_region = Some \<lparr>region_name = ''quad_a'',
                                                         region_type = ''WINDOW''\<rparr>\<rparr>,
                       call_object = None\<rparr>)
              [''cmd_a'', ''cmd_a'', ''cmd_a''])"
    by code_simp
  then have "?d = Some (the ?d)" by (cases ?d) auto
  then have h10: "direct_loop ?H (fr_action ?fr) (fr_action_type ?fr) 3 (take 1 ?rest) demo_world
                    = Some (the ?d)"
    by (simp add: default_frame_def)
  have e: "map_option (\<lambda>rw. (fst rw, map call_command (invoked (snd rw))))
             (map_option (\<lambda>rw. (Exit (fst rw), snd rw))
                (play ?H 1 (drop (Suc 1) ?rest) (fr_action ?fr) (fr_action_type ?fr) (JNum (- 1))
                   None None (the ?d)))
           = Some (Exit (Returned None), [''cmd_a'', ''cmd_a'', ''cmd_a'', ''cmd_b''])"
    by code_simp
  from scan_counted_loop[OF h1 h2 h3 h4 h5 h6 h7 h8 h9 h10, of 1 0 None "[]"] e dl
  show ?thesis by simp
qed

text \<open>
  Two inputs that the amended statement leaves out. A counted loop nested in the body of a
  counted loop is entered with \<open>return play(...)\<close>, so the count of the outer loop and the
  macros after it are dropped: on \<open>[Loop 3, a, Loop 3, b, EndLoop, c, EndLoop, d]\<close> the
  commands run are \<open>a, b, b, b, c\<close>. With \<open>RepeatCount = 0\<close> the count becomes \<open>- 1\<close>
  after the first pass, so the body runs once and the macros after the loop never run.
\<close>

lemma play_nested_counted_loop:
  "map_option (\<lambda>rw. (fst rw, map call_command (invoked (snd rw))))
     (play (demo_host demo_table []) 9
        [event ''l1'' repeat_loop_text, mk_macro ''a'' ''cmd_a'',
         event ''l2'' repeat_loop_text, mk_macro ''b'' ''cmd_b'', event ''e2'' end_loop_text,
         mk_macro ''c'' ''cmd_c'', event ''e1'' end_loop_text, mk_macro ''d'' ''cmd_d'']
        (demo_action ''GROUP'') ''global_actions'' (JNum (- 1)) None None demo_world)
   = Some (Returned None, [''cmd_a'', ''cmd_b'', ''cmd_b'', ''cmd_b'', ''cmd_c''])"
  by code_simp

lemma play_counted_loop_zero:
  "map_option (\<lambda>rw. (fst rw, map call_command (invoked (snd rw))))
     (play (demo_host [(''zero'', JObj [(''Type'', JStr ''Loop''),
                                        (''StatementType'', JStr ''repeat''),
                                        (''RepeatCount'', JNum 0)]),
                       (end_loop_text, JObj [(''Type'', JStr ''EndLoop'')])] []) 9
        [event ''l'' ''zero'', mk_macro ''a'' ''cmd_a'', event ''e'' end_loop_text,
         mk_macro ''b'' ''cmd_b'']
        (demo_action ''GROUP'') ''global_actions'' (JNum (- 1)) None None demo_world)
   = Some (Returned None, [''cmd_a''])"
  by code_simp

end
